theory Spec2Isabelle
  imports Main
begin

section \<open>Values and errors of the host language\<close>

text \<open>
  The worker of \<^verbatim>\<open>src/index.ts\<close> handles untyped run-time values: what
  \<^verbatim>\<open>JSON.parse\<close> returns, what a property read returns, what a template literal
  prints. A number is kept as the text the language prints for it: the program never
  computes with one, it only prints them, tests them for truth and passes them on.
  An object is the list of its own properties.
\<close>

datatype jsval =
    JUndefined
  | JNull
  | JBool bool
  | JNum string
  | JStr string
  | JArr "jsval list"
  | JObj "(string \<times> jsval) list"

text \<open>
  What a piece of the program can throw: the two exceptions of the language it can
  raise itself, an error of the model binding, the class of error a step's work marks
  as never worth retrying, and the two errors of the workflow binding, for an unknown
  instance and for an id that is taken.
\<close>

datatype error =
    SyntaxError
  | TypeError
  | HostError string
  | NonRetryableError string
  | InstanceNotFound
  | InstanceExists

text \<open>A failure of a run: raised by a named step, or raised outside every step.\<close>

datatype failure =
    StepFailure string error
  | RunFailure error

subsection \<open>Property reads, truth, printing\<close>

text \<open>
  \<^verbatim>\<open>v.k\<close> for the property names this program reads (none of them is defined on a
  prototype): reading a property of \<^verbatim>\<open>undefined\<close> or \<^verbatim>\<open>null\<close> throws a
  TypeError, an object gives its own property or \<^verbatim>\<open>undefined\<close>, every other
  value gives \<^verbatim>\<open>undefined\<close>.
\<close>

fun get_prop :: "jsval \<Rightarrow> string \<Rightarrow> error + jsval" where
  "get_prop JUndefined k = Inl TypeError"
| "get_prop JNull k = Inl TypeError"
| "get_prop (JObj kvs) k = (case map_of kvs k of None \<Rightarrow> Inr JUndefined | Some v \<Rightarrow> Inr v)"
| "get_prop v k = Inr JUndefined"

text \<open>The truth value of a value, as \<^verbatim>\<open>!v\<close> tests it.\<close>

fun truthy :: "jsval \<Rightarrow> bool" where
  "truthy JUndefined = False"
| "truthy JNull = False"
| "truthy (JBool b) = b"
| "truthy (JNum n) = (n \<noteq> ''0'')"
| "truthy (JStr s) = (s \<noteq> [])"
| "truthy (JArr xs) = True"
| "truthy (JObj kvs) = True"

text \<open>\<^verbatim>\<open>xs.join(sep)\<close> on the printed elements.\<close>

fun intercalate :: "string \<Rightarrow> string list \<Rightarrow> string" where
  "intercalate sep [] = []"
| "intercalate sep [x] = x"
| "intercalate sep (x # y # ys) = x @ sep @ intercalate sep (y # ys)"

text \<open>
  The text a template literal prints for a value, the text \<^verbatim>\<open>join\<close> prints for
  an element of an array (\<^verbatim>\<open>undefined\<close> and \<^verbatim>\<open>null\<close> print as nothing
  there), and the texts of the elements of an array in order. Printing can throw: an
  object is printed by the \<^verbatim>\<open>toString\<close> of its prototype, and an object with a
  property of its own named \<^verbatim>\<open>toString\<close> hides that method with a value that
  cannot be called, so printing it throws a TypeError. An array prints its elements
  joined by commas, and throws where the first of them throws.
\<close>

fun to_string :: "jsval \<Rightarrow> error + string"
  and join_elem :: "jsval \<Rightarrow> error + string"
  and join_elems :: "jsval list \<Rightarrow> error + string list" where
  "to_string JUndefined = Inr ''undefined''"
| "to_string JNull = Inr ''null''"
| "to_string (JBool b) = Inr (if b then ''true'' else ''false'')"
| "to_string (JNum n) = Inr n"
| "to_string (JStr s) = Inr s"
| "to_string (JArr xs) =
     (case join_elems xs of Inl e \<Rightarrow> Inl e | Inr ts \<Rightarrow> Inr (intercalate '','' ts))"
| "to_string (JObj kvs) =
     (if map_of kvs ''toString'' = None then Inr ''[object Object]'' else Inl TypeError)"
| "join_elem JUndefined = Inr []"
| "join_elem JNull = Inr []"
| "join_elem (JBool b) = to_string (JBool b)"
| "join_elem (JNum n) = to_string (JNum n)"
| "join_elem (JStr s) = to_string (JStr s)"
| "join_elem (JArr xs) = to_string (JArr xs)"
| "join_elem (JObj kvs) = to_string (JObj kvs)"
| "join_elems [] = Inr []"
| "join_elems (x # xs) =
     (case join_elem x of
        Inl e \<Rightarrow> Inl e
      | Inr t \<Rightarrow> (case join_elems xs of Inl e \<Rightarrow> Inl e | Inr ts \<Rightarrow> Inr (t # ts)))"

text \<open>
  \<^verbatim>\<open>v.join(sep)\<close>: only an array has the method, and it throws where printing an
  element throws; on \<^verbatim>\<open>undefined\<close> and \<^verbatim>\<open>null\<close> the property read throws, on
  every other value the call of a missing method throws.
\<close>

fun js_join :: "jsval \<Rightarrow> string \<Rightarrow> error + string" where
  "js_join (JArr xs) sep =
     (case join_elems xs of Inl e \<Rightarrow> Inl e | Inr ts \<Rightarrow> Inr (intercalate sep ts))"
| "js_join v sep = Inl TypeError"

section \<open>The collaborators the worker is handed\<close>

text \<open>
  The JSON schema a step declares for the model's answer (the \<^verbatim>\<open>json_schema\<close> of
  its \<^verbatim>\<open>response_format\<close>): a string, a string with a description, a boolean, an
  array of items, or an object with its properties and the names of the required ones.
\<close>

datatype schema =
    SString
  | SStringD string
  | SBoolean
  | SArray schema
  | SObject "(string \<times> schema) list" "string list"

text \<open>
  What it is for a value to match a declared schema: the value has the declared type,
  the items of an array match the item schema, an object has every required property
  and each declared property it has matches. No code of the worker computes this.
\<close>

fun conforms :: "schema \<Rightarrow> jsval \<Rightarrow> bool" where
  "conforms SString v = (case v of JStr s \<Rightarrow> True | _ \<Rightarrow> False)"
| "conforms (SStringD d) v = (case v of JStr s \<Rightarrow> True | _ \<Rightarrow> False)"
| "conforms SBoolean v = (case v of JBool b \<Rightarrow> True | _ \<Rightarrow> False)"
| "conforms (SArray item) v = (case v of JArr xs \<Rightarrow> list_all (conforms item) xs | _ \<Rightarrow> False)"
| "conforms (SObject props required) v =
     (case v of
        JObj kvs \<Rightarrow>
          list_all (\<lambda>k. map_of kvs k \<noteq> None) required
          \<and> list_all (\<lambda>(k, sch). case map_of kvs k of None \<Rightarrow> True | Some x \<Rightarrow> conforms sch x) props
      | _ \<Rightarrow> False)"

text \<open>A request to the model: role-tagged messages and the declared schema.\<close>

record ai_request =
  messages :: "(string \<times> string) list"
  response_format :: schema

text \<open>
  What the platform and the language provide and the repository does not define:
  the model binding \<^verbatim>\<open>env.AI.run\<close> (it answers or throws, and changes the outside
  world \<open>'w\<close>), \<^verbatim>\<open>JSON.parse\<close> (it returns a value or throws),
  \<^verbatim>\<open>JSON.stringify\<close> and \<^verbatim>\<open>crypto.randomUUID\<close>. They are parameters of
  every function below.
\<close>

record 'w host =
  AI_run :: "string \<Rightarrow> ai_request \<Rightarrow> 'w \<Rightarrow> (error + jsval) \<times> 'w"
  JSON_parse :: "string \<Rightarrow> error + jsval"
  JSON_stringify :: "jsval \<Rightarrow> jsval"
  randomUUID :: "'w \<Rightarrow> string \<times> 'w"

type_synonym 'w work = "'w \<Rightarrow> (error + jsval) \<times> 'w"

text \<open>
  \<^verbatim>\<open>step.do(name, callback)\<close>, the second argument of \<^verbatim>\<open>run\<close>: it returns
  the step's output or throws, and changes the state \<open>'s\<close> of whoever drives the run.
\<close>

type_synonym ('w, 's) step_do = "string \<Rightarrow> 'w work \<Rightarrow> 's \<Rightarrow> (failure + jsval) \<times> 's"

section \<open>The workflow: \<^verbatim>\<open>PromptEnhancementWorkflow.run\<close>\<close>

definition modelId :: string where
  "modelId = ''@cf/meta/llama-3-8b-instruct''"

definition newline :: string where
  "newline = [CHR 0x0A]"

definition dquote :: string where
  "dquote = [CHR 0x22]"

definition indent :: string where
  "indent = ''            ''"

text \<open>
  The tail the three callbacks share: call the model, then
  \<^verbatim>\<open>JSON.parse(response.response)\<close>, which prints its argument before it parses
  it. Nothing checks the parsed value against the declared schema: the source casts it
  (\<^verbatim>\<open>as AnalysisResult\<close>).
\<close>

definition model_output :: "'w host \<Rightarrow> ai_request \<Rightarrow> 'w work" where
  "model_output h req w =
     (case AI_run h modelId req w of
        (Inl e, w') \<Rightarrow> (Inl e, w')
      | (Inr response, w') \<Rightarrow>
          (case get_prop response ''response'' of
             Inl e \<Rightarrow> (Inl e, w')
           | Inr text \<Rightarrow>
               (case to_string text of
                  Inl e \<Rightarrow> (Inl e, w')
                | Inr t \<Rightarrow> (JSON_parse h t, w'))))"

subsection \<open>Step 1: analyze-prompt\<close>

definition analysis_schema :: schema where
  "analysis_schema =
     SObject [(''intent'', SString), (''strengths'', SArray SString),
              (''weaknesses'', SArray SString), (''missing_context'', SBoolean)]
             [''intent'', ''strengths'', ''weaknesses'', ''missing_context'']"

definition analyze_system :: string where
  "analyze_system =
     ''You are a senior Prompt Engineer. Analyze the user''
     @ [CHR 0x27] @ ''s prompt. '' @ newline @ indent
     @ ''Identify the core intent, strengths, and specific weaknesses (ambiguity, lack of context). ''
     @ newline @ indent @ ''Output valid JSON only.''"

text \<open>The request of the first step; printing the prompt into the user message can throw.\<close>

definition analyze_request :: "jsval \<Rightarrow> error + ai_request" where
  "analyze_request prompt =
     (case to_string prompt of
        Inl e \<Rightarrow> Inl e
      | Inr p \<Rightarrow>
          Inr \<lparr>messages = [(''system'', analyze_system),
                            (''user'', ''Prompt: '' @ dquote @ p @ dquote)],
                response_format = analysis_schema\<rparr>)"

definition analyze_prompt :: "'w host \<Rightarrow> jsval \<Rightarrow> 'w work" where
  "analyze_prompt h prompt w =
     (case analyze_request prompt of
        Inl e \<Rightarrow> (Inl e, w)
      | Inr req \<Rightarrow> model_output h req w)"

subsection \<open>Step 2: select-strategy\<close>

definition strategy_schema :: schema where
  "strategy_schema =
     SObject [(''technique'', SString), (''reasoning'', SString), (''suggested_role'', SString)]
             [''technique'', ''reasoning'', ''suggested_role'']"

definition strategy_system :: string where
  "strategy_system =
     ''Based on the prompt analysis, select the best prompting technique.'' @ newline @ indent
     @ ''Options: CO-STAR (Context, Objective, Style, Tone, Audience, Response), Chain-of-Thought, Role-Prompting, Few-Shot.''
     @ newline @ indent @ ''Output valid JSON only.''"

text \<open>
  The request of the second step; the user message prints what
  \<^verbatim>\<open>JSON.stringify(analysis)\<close> returns.
\<close>

definition strategy_request :: "'w host \<Rightarrow> jsval \<Rightarrow> error + ai_request" where
  "strategy_request h analysis =
     (case to_string (JSON_stringify h analysis) of
        Inl e \<Rightarrow> Inl e
      | Inr a \<Rightarrow>
          Inr \<lparr>messages = [(''system'', strategy_system), (''user'', ''Analysis: '' @ a)],
                response_format = strategy_schema\<rparr>)"

definition select_strategy :: "'w host \<Rightarrow> jsval \<Rightarrow> 'w work" where
  "select_strategy h analysis w =
     (case strategy_request h analysis of
        Inl e \<Rightarrow> (Inl e, w)
      | Inr req \<Rightarrow> model_output h req w)"

subsection \<open>Step 3: generate-enhancement\<close>

definition enhancement_schema :: schema where
  "enhancement_schema =
     SObject [(''enhanced_prompt'', SString),
              (''changelog'', SStringD ''Brief explanation of changes made'')]
             [''enhanced_prompt'', ''changelog'']"

text \<open>
  The request of the third step. The system message reads and prints
  \<^verbatim>\<open>strategy.technique\<close>, \<^verbatim>\<open>strategy.suggested_role\<close>, the payload's
  \<^verbatim>\<open>targetModel\<close> and \<^verbatim>\<open>tone\<close>, and \<^verbatim>\<open>analysis.weaknesses.join(", ")\<close>, in
  this order; then the user message prints the prompt. Each read and each print can
  throw.
\<close>

definition enhancement_request ::
  "jsval \<Rightarrow> jsval \<Rightarrow> jsval \<Rightarrow> jsval \<Rightarrow> jsval \<Rightarrow> error + ai_request" where
  "enhancement_request prompt tone targetModel analysis strategy =
     (case get_prop strategy ''technique'' of
        Inl e \<Rightarrow> Inl e
      | Inr technique \<Rightarrow>
     (case to_string technique of
        Inl e \<Rightarrow> Inl e
      | Inr technique_text \<Rightarrow>
     (case get_prop strategy ''suggested_role'' of
        Inl e \<Rightarrow> Inl e
      | Inr suggested_role \<Rightarrow>
     (case to_string suggested_role of
        Inl e \<Rightarrow> Inl e
      | Inr role_text \<Rightarrow>
     (case to_string targetModel of
        Inl e \<Rightarrow> Inl e
      | Inr model_text \<Rightarrow>
     (case to_string tone of
        Inl e \<Rightarrow> Inl e
      | Inr tone_text \<Rightarrow>
     (case get_prop analysis ''weaknesses'' of
        Inl e \<Rightarrow> Inl e
      | Inr weaknesses \<Rightarrow>
     (case js_join weaknesses '', '' of
        Inl e \<Rightarrow> Inl e
      | Inr joined \<Rightarrow>
     (case to_string prompt of
        Inl e \<Rightarrow> Inl e
      | Inr prompt_text \<Rightarrow>
          Inr \<lparr>messages =
                 [(''system'',
                   ''You are an expert Prompt Engineer. Rewrite the original prompt using the ''
                   @ technique_text @ '' technique.'' @ newline @ indent
                   @ ''Role: '' @ role_text @ ''.'' @ newline @ indent
                   @ ''Target Model: '' @ model_text @ ''.'' @ newline @ indent
                   @ ''Tone: '' @ tone_text @ ''.'' @ newline @ indent
                   @ ''Address these weaknesses: '' @ joined @ ''.'' @ newline @ indent
                   @ ''Output valid JSON only.''),
                  (''user'', ''Original Prompt: '' @ dquote @ prompt_text @ dquote)],
                response_format = enhancement_schema\<rparr>)))))))))"

text \<open>The object the third callback returns, built from the parsed answer.\<close>

definition final_result :: "jsval \<Rightarrow> jsval \<Rightarrow> jsval \<Rightarrow> error + jsval" where
  "final_result prompt strategy result =
     (case get_prop result ''enhanced_prompt'' of
        Inl e \<Rightarrow> Inl e
      | Inr enhanced_prompt \<Rightarrow>
     (case get_prop strategy ''technique'' of
        Inl e \<Rightarrow> Inl e
      | Inr technique \<Rightarrow>
     (case get_prop result ''changelog'' of
        Inl e \<Rightarrow> Inl e
      | Inr changelog \<Rightarrow>
          Inr (JObj [(''original'', prompt), (''enhanced_prompt'', enhanced_prompt),
                     (''technique_used'', technique), (''changelog'', changelog)]))))"

definition generate_enhancement ::
  "'w host \<Rightarrow> jsval \<Rightarrow> jsval \<Rightarrow> jsval \<Rightarrow> jsval \<Rightarrow> jsval \<Rightarrow> 'w work" where
  "generate_enhancement h prompt tone targetModel analysis strategy w =
     (case enhancement_request prompt tone targetModel analysis strategy of
        Inl e \<Rightarrow> (Inl e, w)
      | Inr req \<Rightarrow>
          (case model_output h req w of
             (Inl e, w') \<Rightarrow> (Inl e, w')
           | (Inr result, w') \<Rightarrow> (final_result prompt strategy result, w')))"

subsection \<open>The run\<close>

text \<open>
  \<^verbatim>\<open>const { prompt, tone = "professional", targetModel = "General LLM" } = event.payload\<close>:
  a default replaces \<^verbatim>\<open>undefined\<close> only, and destructuring \<^verbatim>\<open>null\<close> throws.
\<close>

definition destructure_payload :: "jsval \<Rightarrow> error + (jsval \<times> jsval \<times> jsval)" where
  "destructure_payload payload =
     (case get_prop payload ''prompt'' of
        Inl e \<Rightarrow> Inl e
      | Inr prompt \<Rightarrow>
     (case get_prop payload ''tone'' of
        Inl e \<Rightarrow> Inl e
      | Inr tone \<Rightarrow>
     (case get_prop payload ''targetModel'' of
        Inl e \<Rightarrow> Inl e
      | Inr targetModel \<Rightarrow>
          Inr (prompt,
               if tone = JUndefined then JStr ''professional'' else tone,
               if targetModel = JUndefined then JStr ''General LLM'' else targetModel))))"

text \<open>
  The three awaited \<^verbatim>\<open>step.do\<close> calls. An exception of a step leaves the run at
  once; the output of the last step is the run's return value.
\<close>

definition run :: "'w host \<Rightarrow> ('w, 's) step_do \<Rightarrow> jsval \<Rightarrow> 's \<Rightarrow> (failure + jsval) \<times> 's" where
  "run h step_do payload s =
     (case destructure_payload payload of
        Inl e \<Rightarrow> (Inl (RunFailure e), s)
      | Inr (prompt, tone, targetModel) \<Rightarrow>
          (case step_do ''analyze-prompt'' (analyze_prompt h prompt) s of
             (Inl f, s1) \<Rightarrow> (Inl f, s1)
           | (Inr analysis, s1) \<Rightarrow>
               (case step_do ''select-strategy'' (select_strategy h analysis) s1 of
                  (Inl f, s2) \<Rightarrow> (Inl f, s2)
                | (Inr strategy, s2) \<Rightarrow>
                    step_do ''generate-enhancement''
                      (generate_enhancement h prompt tone targetModel analysis strategy) s2)))"

section \<open>The execution engine behind \<^verbatim>\<open>step.do\<close> and the workflow binding\<close>

text \<open>
  The repository imports \<^verbatim>\<open>WorkflowStep\<close> and the \<^verbatim>\<open>Workflow\<close> binding from
  the hosting platform (\<^verbatim>\<open>cloudflare:workers\<close>); their code is not part of it. The
  definitions of this section follow the specification's sections 3 and 4.
\<close>

subsection \<open>Data model\<close>

text \<open>Modelled from the spec: the overall status of a Run (section 3); the engine's code is absent.\<close>

datatype run_status = Queued | Running | Succeeded | Failed

text \<open>
  Modelled from the spec: the Run of section 3 (the engine's code is absent): run ID, input
  payload, ordered step names, current step index, status, final result (only when
  succeeded), failure detail (only when failed).
\<close>

record run_rec =
  run_id :: string
  input_payload :: jsval
  run_steps :: "string list"
  current_step :: nat
  status :: run_status
  run_result :: "jsval option"
  failure_detail :: "failure option"

text \<open>
  Modelled from the spec: the StepAttempt of section 3 (the executor's code is absent): run
  ID, step name, attempt number from 1, and the outcome, an output or an error. There is
  no clock here, so the timestamp is the position in the log.
\<close>

record step_attempt =
  attempt_run :: string
  attempt_step :: string
  attempt_number :: nat
  attempt_outcome :: "error + jsval"

text \<open>
  Modelled from the spec: the parameters of the default Retry Policy of section 4.2 (the
  platform's policy is absent): a base delay and a maximum attempt count.
\<close>

record policy =
  base_delay :: nat
  max_attempts :: nat

text \<open>
  Modelled from the spec: what the engine holds (sections 2 and 4; its code is absent): the
  StepResult Store keyed by run ID and step name, the log of StepAttempts, the backoff
  delays it has slept, the Run Registry, and the outside world the step work acts on.
\<close>

record 'w engine =
  store :: "string \<times> string \<Rightarrow> jsval option"
  attempts :: "step_attempt list"
  delays :: "nat list"
  registry :: "string \<Rightarrow> run_rec option"
  world :: 'w

subsection \<open>StepResult Store and Retry Policy\<close>

text \<open>
  Modelled from the spec: \<open>put\<close> of section 4.1 (the store's code is absent), write-once:
  when a result exists for the key the write is rejected and the existing value is
  handed back (\<open>Inl\<close>); otherwise the new store is returned.
\<close>

definition store_put ::
  "(string \<times> string \<Rightarrow> jsval option) \<Rightarrow> string \<times> string \<Rightarrow> jsval
     \<Rightarrow> jsval + (string \<times> string \<Rightarrow> jsval option)" where
  "store_put st k v = (case st k of Some old \<Rightarrow> Inl old | None \<Rightarrow> Inr (st(k \<mapsto> v)))"

text \<open>
  Modelled from the spec: \<open>nextDelay\<close> of section 4.2 (the platform's policy is absent):
  given how many attempts have failed, give up once the maximum attempt count is
  reached, otherwise a delay that starts at the base and doubles per attempt.
\<close>

definition nextDelay :: "policy \<Rightarrow> nat \<Rightarrow> nat option" where
  "nextDelay pol failed =
     (if max_attempts pol \<le> failed then None else Some (base_delay pol * 2 ^ (failed - 1)))"

text \<open>
  Modelled from the spec: the class of error a step's work marks non-retryable (section
  4.2; the platform's error class is absent).
\<close>

fun non_retryable :: "error \<Rightarrow> bool" where
  "non_retryable (NonRetryableError m) = True"
| "non_retryable e = False"

subsection \<open>Step Executor\<close>

text \<open>
  Modelled from the spec: the creation of a StepAttempt (sections 3 and 4.3; the
  executor's code is absent): the attempt is appended to the log with its outcome, and
  the world is the one the work left.
\<close>

definition log_attempt ::
  "string \<Rightarrow> string \<Rightarrow> nat \<Rightarrow> error + jsval \<Rightarrow> 'w \<Rightarrow> 'w engine \<Rightarrow> 'w engine" where
  "log_attempt rid name n outcome w' s =
     s\<lparr>world := w',
       attempts := attempts s @
         [\<lparr>attempt_run = rid, attempt_step = name, attempt_number = n,
           attempt_outcome = outcome\<rparr>]\<rparr>"

text \<open>
  Modelled from the spec: step 2 of the algorithm of section 4.3 (the code of
  \<^verbatim>\<open>step.do\<close> is absent). Each round invokes the work and logs a StepAttempt. On
  success the output is put in the store, and the store's existing value is returned
  instead when the put is rejected. On failure a non-retryable error, or a policy that
  gives up, ends the step with a failure carrying the step name and the last error;
  otherwise the executor sleeps the delay and tries again with the count incremented.
\<close>

function attempt_loop ::
  "policy \<Rightarrow> string \<Rightarrow> string \<Rightarrow> 'w work \<Rightarrow> nat \<Rightarrow> 'w engine \<Rightarrow> (failure + jsval) \<times> 'w engine" where
  "attempt_loop pol rid name work n s =
     (case work (world s) of
        (Inr out, w') \<Rightarrow>
          (let s1 = log_attempt rid name n (Inr out) w' s
           in case store_put (store s1) (rid, name) out of
                Inl existing \<Rightarrow> (Inr existing, s1)
              | Inr st' \<Rightarrow> (Inr out, s1\<lparr>store := st'\<rparr>))
      | (Inl e, w') \<Rightarrow>
          (let s1 = log_attempt rid name n (Inl e) w' s
           in if non_retryable e then (Inl (StepFailure name e), s1)
              else (case nextDelay pol n of
                      None \<Rightarrow> (Inl (StepFailure name e), s1)
                    | Some d \<Rightarrow>
                        attempt_loop pol rid name work (Suc n) (s1\<lparr>delays := delays s1 @ [d]\<rparr>))))"
  by pat_completeness auto
termination
  by (relation "measure (\<lambda>(pol, rid, name, work, n, s). max_attempts pol - n)")
     (auto simp: nextDelay_def split: if_splits)

text \<open>
  Modelled from the spec: \<open>execute\<close> of section 4.3 (the code of \<^verbatim>\<open>step.do\<close> is
  absent): a stored StepResult is returned at once, the replay path; otherwise the
  attempts start at number 1.
\<close>

definition execute :: "policy \<Rightarrow> string \<Rightarrow> ('w, 'w engine) step_do" where
  "execute pol rid name work s =
     (case store s (rid, name) of
        Some v \<Rightarrow> (Inr v, s)
      | None \<Rightarrow> attempt_loop pol rid name work 1 s)"

text \<open>The StepAttempts the log holds for one step of one Run.\<close>

definition attempts_of :: "string \<Rightarrow> string \<Rightarrow> 'w engine \<Rightarrow> step_attempt list" where
  "attempts_of rid name s =
     filter (\<lambda>a. attempt_run a = rid \<and> attempt_step a = name) (attempts s)"

subsection \<open>Workflow Engine and Run Registry\<close>

text \<open>The step names of the workflow, in the order \<^verbatim>\<open>run\<close> awaits them.\<close>

definition step_names :: "string list" where
  "step_names = [''analyze-prompt'', ''select-strategy'', ''generate-enhancement'']"

text \<open>
  Modelled from the spec: Run creation and \<open>register\<close> of sections 3 and 4.5 (the code of
  the binding's \<^verbatim>\<open>create\<close> is absent). A new Run is queued. Run IDs are unique, so
  an ID that is already registered creates nothing and is an error.
\<close>

definition workflow_create :: "string \<Rightarrow> jsval \<Rightarrow> 'w engine \<Rightarrow> (error + string) \<times> 'w engine" where
  "workflow_create rid params s =
     (case registry s rid of
        Some r \<Rightarrow> (Inl InstanceExists, s)
      | None \<Rightarrow>
          (Inr rid,
           s\<lparr>registry := (registry s)(rid \<mapsto>
                \<lparr>run_id = rid, input_payload = params, run_steps = step_names, current_step = 0,
                 status = Queued, run_result = None, failure_detail = None\<rparr>)\<rparr>))"

text \<open>
  Modelled from the spec: \<open>get\<close> of section 4.5 (the code of the binding's
  \<^verbatim>\<open>get\<close> is absent): the Run, or not-found for an unknown ID.
\<close>

definition workflow_get :: "string \<Rightarrow> 'w engine \<Rightarrow> error + run_rec" where
  "workflow_get rid s = (case registry s rid of None \<Rightarrow> Inl InstanceNotFound | Some r \<Rightarrow> Inr r)"

text \<open>
  Modelled from the spec: the snapshot of section 4.6 (the code of the instance's
  \<^verbatim>\<open>status\<close> is absent): run ID, status, the current step if running, the final
  result if succeeded, the error detail if failed.
\<close>

record snapshot =
  snap_id :: string
  snap_status :: run_status
  snap_step :: "nat option"
  snap_result :: "jsval option"
  snap_error :: "failure option"

text \<open>
  Modelled from the spec: the read-only projection of section 4.6 (the code of the
  instance's \<^verbatim>\<open>status\<close> is absent).
\<close>

definition instance_status :: "run_rec \<Rightarrow> snapshot" where
  "instance_status r =
     \<lparr>snap_id = run_id r, snap_status = status r,
      snap_step = (if status r = Running then Some (current_step r) else None),
      snap_result = (if status r = Succeeded then run_result r else None),
      snap_error = (if status r = Failed then failure_detail r else None)\<rparr>"

text \<open>
  Modelled from the spec: the transition queued to running of section 4.4, on dispatch
  (the engine's code is absent).
\<close>

definition dispatch :: "string \<Rightarrow> 'w engine \<Rightarrow> 'w engine" where
  "dispatch rid s =
     (case registry s rid of
        None \<Rightarrow> s
      | Some r \<Rightarrow>
          if status r = Queued then s\<lparr>registry := (registry s)(rid \<mapsto> r\<lparr>status := Running\<rparr>)\<rparr>
          else s)"

text \<open>
  Modelled from the spec: the current step index of section 3 (the engine's code is
  absent), as the number of leading steps of the Run with a stored StepResult.
\<close>

definition completed_steps :: "(string \<times> string \<Rightarrow> jsval option) \<Rightarrow> string \<Rightarrow> string list \<Rightarrow> nat" where
  "completed_steps st rid names = length (takeWhile (\<lambda>n. st (rid, n) \<noteq> None) names)"

text \<open>
  Modelled from the spec: the running Run of section 4.4 (the engine's code is absent).
  The engine calls the workflow's \<^verbatim>\<open>run\<close> with the Step Executor as its
  \<^verbatim>\<open>step.do\<close>. A failure moves the Run to failed and stores the failure; the
  output of the last step moves it to succeeded and becomes the final result. A Run
  that is not running is left alone.
\<close>

definition drive :: "'w host \<Rightarrow> policy \<Rightarrow> string \<Rightarrow> 'w engine \<Rightarrow> 'w engine" where
  "drive h pol rid s =
     (case registry s rid of
        None \<Rightarrow> s
      | Some r \<Rightarrow>
          if status r \<noteq> Running then s
          else
            (case run h (execute pol rid) (input_payload r) s of
               (Inl f, s') \<Rightarrow>
                 s'\<lparr>registry := (registry s')(rid \<mapsto>
                      r\<lparr>status := Failed, failure_detail := Some f,
                        current_step := completed_steps (store s') rid (run_steps r)\<rparr>)\<rparr>
             | (Inr out, s') \<Rightarrow>
                 s'\<lparr>registry := (registry s')(rid \<mapsto>
                      r\<lparr>status := Succeeded, run_result := Some out,
                        current_step := completed_steps (store s') rid (run_steps r)\<rparr>)\<rparr>))"

section \<open>The API entrypoint: \<^verbatim>\<open>fetch\<close>\<close>

text \<open>
  A request, as far as the handler reads it: the method, the path of the URL, the
  \<^verbatim>\<open>id\<close> search parameter (\<open>None\<close> when the URL has none) and the text of the body.
\<close>

record http_request =
  req_method :: string
  req_pathname :: string
  req_id :: "string option"
  req_body :: string

datatype body = JsonBody jsval | SnapshotBody snapshot | TextBody string

text \<open>A response: the HTTP status code and the body.\<close>

datatype response = Response nat body

definition squote :: string where
  "squote = [CHR 0x27]"

text \<open>
  The handler. \<open>Inl\<close> is an exception that leaves the handler uncaught, an internal
  failure of the worker: \<^verbatim>\<open>req.json()\<close> throws on a body that does not parse, and
  \<^verbatim>\<open>payload.prompt\<close> throws on a \<^verbatim>\<open>null\<close> payload; only the status branch has
  a \<^verbatim>\<open>try\<close>.
\<close>

definition fetch :: "'w host \<Rightarrow> http_request \<Rightarrow> 'w engine \<Rightarrow> (error + response) \<times> 'w engine" where
  "fetch h req s =
     (if req_method req = ''POST'' \<and> req_pathname req = ''/enhance'' then
        (case JSON_parse h (req_body req) of
           Inl e \<Rightarrow> (Inl e, s)
         | Inr payload \<Rightarrow>
             (case get_prop payload ''prompt'' of
                Inl e \<Rightarrow> (Inl e, s)
              | Inr prompt \<Rightarrow>
                  if \<not> truthy prompt then
                    (Inr (Response 400
                       (JsonBody (JObj [(''error'',
                          JStr (''Missing '' @ squote @ ''prompt'' @ squote @ '' in body''))]))), s)
                  else
                    (case randomUUID h (world s) of
                       (uuid, w') \<Rightarrow>
                         (case workflow_create uuid payload (s\<lparr>world := w'\<rparr>) of
                            (Inl e, s') \<Rightarrow> (Inl e, s')
                          | (Inr inst, s') \<Rightarrow>
                              (Inr (Response 200
                                 (JsonBody (JObj [(''status'', JStr ''started''),
                                                  (''id'', JStr inst),
                                                  (''monitor_url'', JStr (''/status?id='' @ inst))]))),
                               s')))))
      else if req_method req = ''GET'' \<and> req_pathname req = ''/status'' then
        (case req_id req of
           None \<Rightarrow>
             (Inr (Response 400
                (JsonBody (JObj [(''error'', JStr (''Missing '' @ squote @ ''id'' @ squote))]))), s)
         | Some rid \<Rightarrow>
             if rid = [] then
               (Inr (Response 400
                  (JsonBody (JObj [(''error'', JStr (''Missing '' @ squote @ ''id'' @ squote))]))), s)
             else
               (case workflow_get rid s of
                  Inl e \<Rightarrow>
                    (Inr (Response 404 (JsonBody (JObj [(''error'', JStr ''Instance not found'')]))), s)
                | Inr inst \<Rightarrow> (Inr (Response 200 (SnapshotBody (instance_status inst))), s)))
      else (Inr (Response 404 (TextBody ''Not Found'')), s))"

section \<open>The system: requests and engine moves\<close>

text \<open>
  Modelled from the spec: the data flow of section 2 (the platform's scheduler is
  absent), as the moves of the whole system: the worker serves a request, the engine
  dispatches a queued Run, the engine drives a running Run.
\<close>

datatype event = Request http_request | Dispatch string | Drive string

definition engine_step :: "'w host \<Rightarrow> policy \<Rightarrow> event \<Rightarrow> 'w engine \<Rightarrow> 'w engine" where
  "engine_step h pol ev s =
     (case ev of
        Request req \<Rightarrow> snd (fetch h req s)
      | Dispatch rid \<Rightarrow> dispatch rid s
      | Drive rid \<Rightarrow> drive h pol rid s)"

text \<open>
  Modelled from the spec: a sequence of such moves, in order (section 2; the platform's
  scheduler is absent).
\<close>

fun engine_steps :: "'w host \<Rightarrow> policy \<Rightarrow> event list \<Rightarrow> 'w engine \<Rightarrow> 'w engine" where
  "engine_steps h pol [] s = s"
| "engine_steps h pol (ev # evs) s = engine_steps h pol evs (engine_step h pol ev s)"

section \<open>A concrete host and the scenario of the specification\<close>

text \<open>
  The scenario of the specification's section 8, as data: the texts the model answers
  with, and the values \<^verbatim>\<open>JSON.parse\<close> gives for them. The concrete host below
  knows \<^verbatim>\<open>JSON.parse\<close> and \<^verbatim>\<open>JSON.stringify\<close> on these texts only, so it is
  used on them and on text that is not JSON at all.
\<close>

definition quoted :: "string \<Rightarrow> string" where
  "quoted t = dquote @ t @ dquote"

definition payload_text :: string where
  "payload_text = ''{'' @ quoted ''prompt'' @ '':'' @ quoted ''write an email'' @ ''}''"

definition payload_value :: jsval where
  "payload_value = JObj [(''prompt'', JStr ''write an email'')]"

definition analysis_text :: string where
  "analysis_text =
     ''{'' @ quoted ''intent'' @ '':'' @ quoted ''draft email'' @ '','' @
     quoted ''weaknesses'' @ '':['' @ quoted ''no recipient'' @ ''],'' @
     quoted ''strengths'' @ '':[],'' @ quoted ''missing_context'' @ '':true}''"

definition analysis_value :: jsval where
  "analysis_value =
     JObj [(''intent'', JStr ''draft email''), (''weaknesses'', JArr [JStr ''no recipient'']),
           (''strengths'', JArr []), (''missing_context'', JBool True)]"

definition strategy_text :: string where
  "strategy_text =
     ''{'' @ quoted ''technique'' @ '':'' @ quoted ''Role-Prompting'' @ '','' @
     quoted ''reasoning'' @ '':'' @ quoted ''...'' @ '','' @
     quoted ''suggested_role'' @ '':'' @ quoted ''assistant'' @ ''}''"

definition strategy_value :: jsval where
  "strategy_value =
     JObj [(''technique'', JStr ''Role-Prompting''), (''reasoning'', JStr ''...''),
           (''suggested_role'', JStr ''assistant'')]"

definition enhancement_text :: string where
  "enhancement_text =
     ''{'' @ quoted ''enhanced_prompt'' @ '':'' @ quoted ''...'' @ '','' @
     quoted ''changelog'' @ '':'' @ quoted ''added role and recipient context'' @ ''}''"

definition enhancement_value :: jsval where
  "enhancement_value =
     JObj [(''enhanced_prompt'', JStr ''...''),
           (''changelog'', JStr ''added role and recipient context'')]"

definition parse_table :: "(string \<times> jsval) list" where
  "parse_table =
     [(''null'', JNull), (''{}'', JObj []), (payload_text, payload_value),
      (analysis_text, analysis_value), (strategy_text, strategy_value),
      (enhancement_text, enhancement_value)]"

definition table_parse :: "string \<Rightarrow> error + jsval" where
  "table_parse t = (case map_of parse_table t of None \<Rightarrow> Inl SyntaxError | Some v \<Rightarrow> Inr v)"

definition table_stringify :: "jsval \<Rightarrow> jsval" where
  "table_stringify v =
     (case map_of (map (\<lambda>(t, v). (v, t)) parse_table) v of
        None \<Rightarrow> JUndefined
      | Some t \<Rightarrow> JStr t)"

text \<open>The model of the scenario: it answers each step with the scenario's text.\<close>

definition scenario_answer :: "ai_request \<Rightarrow> nat \<Rightarrow> error + string" where
  "scenario_answer req n =
     (if response_format req = analysis_schema then Inr analysis_text
      else if response_format req = strategy_schema then Inr strategy_text
      else Inr enhancement_text)"

text \<open>A model that is never reachable, and a model that answers every request with \<^verbatim>\<open>{}\<close>.\<close>

definition timeout_answer :: "ai_request \<Rightarrow> nat \<Rightarrow> error + string" where
  "timeout_answer req n = Inl (HostError ''timeout'')"

definition empty_object_answer :: "ai_request \<Rightarrow> nat \<Rightarrow> error + string" where
  "empty_object_answer req n = Inr ''{}''"

text \<open>A model that answers every request with text that is not JSON.\<close>

definition garbage_answer :: "ai_request \<Rightarrow> nat \<Rightarrow> error + string" where
  "garbage_answer req n = Inr ''not json''"

text \<open>A model that answers every request with \<^verbatim>\<open>null\<close>.\<close>

definition null_answer :: "ai_request \<Rightarrow> nat \<Rightarrow> error + string" where
  "null_answer req n = Inr ''null''"

definition test_uuid :: string where
  "test_uuid = ''3b241101-e2bb-4255-8caf-4136c566a962''"

text \<open>
  The concrete host: its world counts the calls of the model; the answer to a call is
  given by the request and the count.
\<close>

definition test_host :: "(ai_request \<Rightarrow> nat \<Rightarrow> error + string) \<Rightarrow> nat host" where
  "test_host answer =
     \<lparr>AI_run = (\<lambda>m req n.
        (case answer req n of Inl e \<Rightarrow> Inl e | Inr t \<Rightarrow> Inr (JObj [(''response'', JStr t)]),
         Suc n)),
      JSON_parse = table_parse,
      JSON_stringify = table_stringify,
      randomUUID = (\<lambda>n. (test_uuid, n))\<rparr>"

definition test_policy :: policy where
  "test_policy = \<lparr>base_delay = 10, max_attempts = 3\<rparr>"

definition empty_engine :: "nat engine" where
  "empty_engine =
     \<lparr>store = (\<lambda>k. None), attempts = [], delays = [], registry = (\<lambda>k. None), world = 0\<rparr>"

definition post_enhance :: "string \<Rightarrow> http_request" where
  "post_enhance b =
     \<lparr>req_method = ''POST'', req_pathname = ''/enhance'', req_id = None, req_body = b\<rparr>"

definition get_status :: "string option \<Rightarrow> http_request" where
  "get_status i =
     \<lparr>req_method = ''GET'', req_pathname = ''/status'', req_id = i, req_body = []\<rparr>"

text \<open>The engine after the scenario's Run was submitted and dispatched.\<close>

definition submitted_engine :: "nat engine" where
  "submitted_engine =
     engine_steps (test_host scenario_answer) test_policy
       [Request (post_enhance payload_text), Dispatch test_uuid] empty_engine"

text \<open>
  A \<^verbatim>\<open>step.do\<close> that stops a run before the generation step whatever that step's
  work is, and executes the steps before it.
\<close>

definition stop_before_generation :: "(nat, nat engine) step_do" where
  "stop_before_generation name work s =
     (if name = ''generate-enhancement'' then (Inl (StepFailure name (HostError ''stopped'')), s)
      else execute test_policy test_uuid name work s)"

text \<open>The Run of the scenario once dispatched, its final result, and the engine once it ran.\<close>

definition scenario_run_rec :: run_rec where
  "scenario_run_rec =
     \<lparr>run_id = test_uuid, input_payload = payload_value, run_steps = step_names,
      current_step = 0, status = Running, run_result = None, failure_detail = None\<rparr>"

definition scenario_result :: jsval where
  "scenario_result =
     JObj [(''original'', JStr ''write an email''), (''enhanced_prompt'', JStr ''...''),
           (''technique_used'', JStr ''Role-Prompting''),
           (''changelog'', JStr ''added role and recipient context'')]"

definition completed_engine :: "nat engine" where
  "completed_engine =
     \<lparr>store = ((\<lambda>k. None)((test_uuid, ''analyze-prompt'') \<mapsto> analysis_value,
                           (test_uuid, ''select-strategy'') \<mapsto> strategy_value,
                           (test_uuid, ''generate-enhancement'') \<mapsto> scenario_result)),
      attempts =
        [\<lparr>attempt_run = test_uuid, attempt_step = ''analyze-prompt'', attempt_number = 1,
          attempt_outcome = Inr analysis_value\<rparr>,
         \<lparr>attempt_run = test_uuid, attempt_step = ''select-strategy'', attempt_number = 1,
          attempt_outcome = Inr strategy_value\<rparr>,
         \<lparr>attempt_run = test_uuid, attempt_step = ''generate-enhancement'', attempt_number = 1,
          attempt_outcome = Inr scenario_result\<rparr>],
      delays = [],
      registry = (\<lambda>k. None)(test_uuid \<mapsto> scenario_run_rec),
      world = 3\<rparr>"

text \<open>
  A model that fails with a timeout on the requests that declare the given schema, and
  answers the others as the scenario does.
\<close>

definition fail_on :: "schema \<Rightarrow> ai_request \<Rightarrow> nat \<Rightarrow> error + string" where
  "fail_on sch req n =
     (if response_format req = sch then Inl (HostError ''timeout'') else scenario_answer req n)"

text \<open>The engine after the scenario's Run was submitted, before it is dispatched.\<close>

definition queued_engine :: "nat engine" where
  "queued_engine =
     engine_steps (test_host scenario_answer) test_policy
       [Request (post_enhance payload_text)] empty_engine"

section \<open>Properties the claims speak of\<close>

text \<open>
  The Run \<open>rid\<close> is failed in the engine \<open>s'\<close> with the failure \<open>f\<close> recorded, \<open>f\<close> is a
  failure of the step \<open>name\<close>, and its error is the error of the last StepAttempt of
  the log, an attempt of that step of that Run.
\<close>

definition failed_at :: "string \<Rightarrow> string \<Rightarrow> failure \<Rightarrow> 'w engine \<Rightarrow> bool" where
  "failed_at rid name f s' =
     ((case registry s' rid of
         None \<Rightarrow> False
       | Some r' \<Rightarrow> status r' = Failed \<and> failure_detail r' = Some f
                    \<and> snap_error (instance_status r') = Some f)
      \<and> (case f of
            RunFailure e \<Rightarrow> False
          | StepFailure n e \<Rightarrow>
              n = name \<and> attempts s' \<noteq> [] \<and> attempt_run (last (attempts s')) = rid
              \<and> attempt_step (last (attempts s')) = name
              \<and> attempt_outcome (last (attempts s')) = Inl e))"

text \<open>
  Between the engines \<open>s\<close> and \<open>s'\<close> the step \<open>name\<close> of the Run \<open>rid\<close> was not executed:
  no StepAttempt was logged for it and its entry of the store is as it was.
\<close>

definition untouched :: "string \<Rightarrow> string \<Rightarrow> 'w engine \<Rightarrow> 'w engine \<Rightarrow> bool" where
  "untouched rid name s s' =
     (attempts_of rid name s' = attempts_of rid name s \<and> store s' (rid, name) = store s (rid, name))"

text \<open>
  The order of the statuses, queued before running before the two terminal ones, and
  what it is for a Run to have moved only forward from \<open>r\<close> to \<open>r'\<close>: a Run that was
  succeeded or failed is unchanged, any other has a status that is not earlier.
\<close>

fun rank :: "run_status \<Rightarrow> nat" where
  "rank Queued = 0"
| "rank Running = 1"
| "rank Succeeded = 2"
| "rank Failed = 2"

definition terminal :: "run_status \<Rightarrow> bool" where
  "terminal st = (st = Succeeded \<or> st = Failed)"

definition forward :: "run_rec \<Rightarrow> run_rec \<Rightarrow> bool" where
  "forward r r' = (if terminal (status r) then r' = r else rank (status r) \<le> rank (status r'))"

section \<open>Evaluation and frame lemmas\<close>

declare attempt_loop.simps [simp del]

lemmas scenario_defs =
  quoted_def dquote_def payload_text_def payload_value_def analysis_text_def analysis_value_def
  strategy_text_def strategy_value_def enhancement_text_def enhancement_value_def
  parse_table_def table_parse_def table_stringify_def scenario_answer_def timeout_answer_def
  empty_object_answer_def test_uuid_def test_host_def test_policy_def empty_engine_def
  post_enhance_def get_status_def analysis_schema_def strategy_schema_def enhancement_schema_def

lemma generate_enhancement_shape:
  assumes "generate_enhancement h prompt tone targetModel analysis strategy w = (Inr v, w')"
  shows "\<exists>ep t cl. v = JObj [(''original'', prompt), (''enhanced_prompt'', ep),
                              (''technique_used'', t), (''changelog'', cl)]
           \<and> get_prop strategy ''technique'' = Inr t"
  using assms
  by (auto simp: generate_enhancement_def final_result_def split: sum.splits prod.splits)

section \<open>The Step Executor: one round, frame and outcome\<close>

subsection \<open>The attempt loop, one round at a time\<close>

lemma attempt_loop_retry:
  assumes "work (world s) = (Inl e, w')" "\<not> non_retryable e" "n < max_attempts pol"
  shows "attempt_loop pol rid name work n s =
           attempt_loop pol rid name work (Suc n)
             ((log_attempt rid name n (Inl e) w' s)
                \<lparr>delays := delays s @ [base_delay pol * 2 ^ (n - 1)]\<rparr>)"
  using assms
  by (subst attempt_loop.simps) (simp add: log_attempt_def nextDelay_def Let_def)

lemma attempt_loop_give_up:
  assumes "work (world s) = (Inl e, w')" "non_retryable e \<or> max_attempts pol \<le> n"
  shows "attempt_loop pol rid name work n s =
           (Inl (StepFailure name e), log_attempt rid name n (Inl e) w' s)"
  using assms
  by (subst attempt_loop.simps) (auto simp: log_attempt_def nextDelay_def Let_def)

lemma attempt_loop_success:
  assumes "work (world s) = (Inr out, w')"
  shows "attempt_loop pol rid name work n s =
           (case store s (rid, name) of
              Some old \<Rightarrow> (Inr old, log_attempt rid name n (Inr out) w' s)
            | None \<Rightarrow>
                (Inr out,
                 (log_attempt rid name n (Inr out) w' s)\<lparr>store := (store s)((rid, name) \<mapsto> out)\<rparr>))"
  using assms
  by (subst attempt_loop.simps)
     (simp add: log_attempt_def store_put_def Let_def split: option.splits)

text \<open>
  The shape every property of the loop is proved in: it holds after a round that ends
  the loop, and a round that retries preserves it.
\<close>

lemma attempt_loop_cases [case_names success give_up retry]:
  assumes "\<And>out w'. work (world s) = (Inr out, w') \<Longrightarrow> P"
    and "\<And>e w'. work (world s) = (Inl e, w') \<Longrightarrow> non_retryable e \<or> max_attempts pol \<le> n \<Longrightarrow> P"
    and "\<And>e w'. work (world s) = (Inl e, w') \<Longrightarrow> \<not> non_retryable e \<Longrightarrow> n < max_attempts pol \<Longrightarrow> P"
  shows P
proof -
  obtain r w' where w: "work (world s) = (r, w')" by (cases "work (world s)")
  show ?thesis
  proof (cases r)
    case (Inr out) with w assms(1) show ?thesis by blast
  next
    case (Inl e)
    with w assms(2,3) show ?thesis by (cases "non_retryable e \<or> max_attempts pol \<le> n") auto
  qed
qed

lemma attempt_loop_induct [consumes 0, case_names success give_up retry]:
  assumes "\<And>n s out w'. work (world s) = (Inr out, w') \<Longrightarrow> P n s"
    and "\<And>n s e w'. work (world s) = (Inl e, w') \<Longrightarrow>
           non_retryable e \<or> max_attempts pol \<le> n \<Longrightarrow> P n s"
    and "\<And>n s e w'. work (world s) = (Inl e, w') \<Longrightarrow> \<not> non_retryable e \<Longrightarrow>
           n < max_attempts pol \<Longrightarrow>
           P (Suc n) ((log_attempt rid name n (Inl e) w' s)
                        \<lparr>delays := delays s @ [base_delay pol * 2 ^ (n - 1)]\<rparr>) \<Longrightarrow>
           P n s"
  shows "P n s"
proof (induction "max_attempts pol - n" arbitrary: n s rule: less_induct)
  case (less n s)
  show ?case
  proof (cases rule: attempt_loop_cases[where work = work and s = s and pol = pol and n = n])
    case (success out w')
    then show ?thesis by (rule assms(1))
  next
    case (give_up e w')
    then show ?thesis by (rule assms(2))
  next
    case (retry e w')
    from retry(3) have "max_attempts pol - Suc n < max_attempts pol - n" by simp
    from less[OF this] have "P (Suc n) ((log_attempt rid name n (Inl e) w' s)
                        \<lparr>delays := delays s @ [base_delay pol * 2 ^ (n - 1)]\<rparr>)" .
    with retry show ?thesis by (rule assms(3))
  qed
qed

subsection \<open>What the attempt loop leaves alone\<close>

lemma attempt_loop_registry:
  "registry (snd (attempt_loop pol rid name work n s)) = registry s"
proof (induction n s rule: attempt_loop_induct[where work = work and pol = pol and rid = rid and name = name])
  case (success n s out w')
  then show ?case by (simp add: attempt_loop_success log_attempt_def split: option.splits)
next
  case (give_up n s e w')
  then show ?case by (simp add: attempt_loop_give_up log_attempt_def)
next
  case (retry n s e w')
  then show ?case by (simp add: attempt_loop_retry log_attempt_def)
qed

lemma attempt_loop_store_other:
  "k \<noteq> (rid, name) \<Longrightarrow> store (snd (attempt_loop pol rid name work n s)) k = store s k"
proof (induction n s rule: attempt_loop_induct[where work = work and pol = pol and rid = rid and name = name])
  case (success n s out w')
  then show ?case by (simp add: attempt_loop_success log_attempt_def split: option.splits)
next
  case (give_up n s e w')
  then show ?case by (simp add: attempt_loop_give_up log_attempt_def)
next
  case (retry n s e w')
  then show ?case by (simp add: attempt_loop_retry log_attempt_def)
qed

lemma attempt_loop_store_keeps:
  "store s k = Some v \<Longrightarrow> store (snd (attempt_loop pol rid name work n s)) k = Some v"
proof (induction n s rule: attempt_loop_induct[where work = work and pol = pol and rid = rid and name = name])
  case (success n s out w')
  then show ?case by (auto simp: attempt_loop_success log_attempt_def split: option.splits)
next
  case (give_up n s e w')
  then show ?case by (simp add: attempt_loop_give_up log_attempt_def)
next
  case (retry n s e w')
  then show ?case by (simp add: attempt_loop_retry log_attempt_def)
qed


lemma attempt_loop_success_stored:
  "fst (attempt_loop pol rid name work n s) = Inr v \<Longrightarrow>
     store (snd (attempt_loop pol rid name work n s)) (rid, name) = Some v"
proof (induction n s rule: attempt_loop_induct[where work = work and pol = pol and rid = rid and name = name])
  case (success n s out w')
  then show ?case by (auto simp: attempt_loop_success log_attempt_def split: option.splits)
next
  case (give_up n s e w')
  then show ?case by (simp add: attempt_loop_give_up)
next
  case (retry n s e w')
  then show ?case by (simp add: attempt_loop_retry)
qed

lemma attempt_loop_failure:
  "fst (attempt_loop pol rid name work n s) = Inl f \<Longrightarrow>
     store (snd (attempt_loop pol rid name work n s)) = store s \<and>
     (\<exists>e m. f = StepFailure name e \<and>
        attempts (snd (attempt_loop pol rid name work n s)) \<noteq> [] \<and>
        last (attempts (snd (attempt_loop pol rid name work n s))) =
          \<lparr>attempt_run = rid, attempt_step = name, attempt_number = m, attempt_outcome = Inl e\<rparr>)"
proof (induction n s rule: attempt_loop_induct[where work = work and pol = pol and rid = rid and name = name])
  case (success n s out w')
  then show ?case by (auto simp: attempt_loop_success split: option.splits)
next
  case (give_up n s e w')
  then show ?case by (auto simp: attempt_loop_give_up log_attempt_def)
next
  case (retry n s e w')
  then show ?case by (simp add: attempt_loop_retry log_attempt_def)
qed

lemma attempt_loop_success_from_work:
  "fst (attempt_loop pol rid name work n s) = Inr v \<Longrightarrow> store s (rid, name) = None \<Longrightarrow>
     \<exists>w w'. work w = (Inr v, w')"
proof (induction n s rule: attempt_loop_induct[where work = work and pol = pol and rid = rid and name = name])
  case (success n s out w')
  then show ?case by (auto simp: attempt_loop_success)
next
  case (give_up n s e w')
  then show ?case by (simp add: attempt_loop_give_up)
next
  case (retry n s e w')
  then show ?case by (simp add: attempt_loop_retry log_attempt_def)
qed

lemma attempt_loop_attempts:
  "\<exists>new. attempts (snd (attempt_loop pol rid name work n s)) = attempts s @ new \<and> new \<noteq> [] \<and>
         length new \<le> max 1 (Suc (max_attempts pol) - n) \<and>
         list_all (\<lambda>a. attempt_run a = rid \<and> attempt_step a = name) new"
proof (induction n s rule: attempt_loop_induct[where work = work and pol = pol and rid = rid and name = name])
  case (success n s out w')
  then show ?case by (simp add: attempt_loop_success log_attempt_def split: option.splits)
next
  case (give_up n s e w')
  then show ?case by (simp add: attempt_loop_give_up log_attempt_def)
next
  case (retry n s e w')
  let ?a = "\<lparr>attempt_run = rid, attempt_step = name, attempt_number = n, attempt_outcome = Inl e\<rparr>"
  from retry(4) obtain new where new:
    "attempts (snd (attempt_loop pol rid name work n s)) = (attempts s @ [?a]) @ new"
    "length new \<le> max 1 (Suc (max_attempts pol) - Suc n)"
    "list_all (\<lambda>a. attempt_run a = rid \<and> attempt_step a = name) new"
    using retry(1-3) by (auto simp: attempt_loop_retry log_attempt_def)
  from new retry(3)
  have "attempts (snd (attempt_loop pol rid name work n s)) = attempts s @ (?a # new)
      \<and> ?a # new \<noteq> [] \<and> length (?a # new) \<le> max 1 (Suc (max_attempts pol) - n)
      \<and> list_all (\<lambda>a. attempt_run a = rid \<and> attempt_step a = name) (?a # new)"
    by auto
  then show ?case by blast
qed

lemma attempt_loop_always_fails:
  "\<forall>w. isl (fst (work w)) \<Longrightarrow> isl (fst (attempt_loop pol rid name work n s))"
proof (induction n s rule: attempt_loop_induct[where work = work and pol = pol and rid = rid and name = name])
  case (success n s out w')
  from success(2) have "isl (fst (work (world s)))" by blast
  with success(1) show ?case by simp
next
  case (give_up n s e w')
  then show ?case by (simp add: attempt_loop_give_up)
next
  case (retry n s e w')
  then show ?case by (simp add: attempt_loop_retry)
qed

lemma attempt_loop_exhausts:
  "\<forall>w. \<exists>e. fst (work w) = Inl e \<and> \<not> non_retryable e \<Longrightarrow>
     length (attempts (snd (attempt_loop pol rid name work n s))) =
       length (attempts s) + max 1 (Suc (max_attempts pol) - n)"
proof (induction n s rule: attempt_loop_induct[where work = work and pol = pol and rid = rid and name = name])
  case (success n s out w')
  from success(2) have "\<exists>e. fst (work (world s)) = Inl e" by blast
  with success(1) show ?case by simp
next
  case (give_up n s e w')
  from give_up(3) have "\<exists>e'. fst (work (world s)) = Inl e' \<and> \<not> non_retryable e'" by blast
  with give_up(1,2) show ?case by (auto simp: attempt_loop_give_up log_attempt_def)
next
  case (retry n s e w')
  then show ?case by (simp add: attempt_loop_retry log_attempt_def)
qed

subsection \<open>From the loop to \<open>execute\<close>\<close>

lemma execute_replay:
  "store s (rid, name) = Some v \<Longrightarrow> execute pol rid name work s = (Inr v, s)"
  by (simp add: execute_def)

lemma execute_registry: "registry (snd (execute pol rid name work s)) = registry s"
  by (simp add: execute_def attempt_loop_registry split: option.splits)

lemma execute_store_other:
  "k \<noteq> (rid, name) \<Longrightarrow> store (snd (execute pol rid name work s)) k = store s k"
  by (simp add: execute_def attempt_loop_store_other split: option.splits)

lemma execute_store_keeps:
  "store s k = Some v \<Longrightarrow> store (snd (execute pol rid name work s)) k = Some v"
  by (simp add: execute_def attempt_loop_store_keeps split: option.splits)

lemma execute_success_stored:
  "execute pol rid name work s = (Inr v, s') \<Longrightarrow> store s' (rid, name) = Some v"
  using attempt_loop_success_stored[of pol rid name work 1 s v]
  by (auto simp: execute_def split: option.splits)

lemma execute_failure:
  assumes "execute pol rid name work s = (Inl f, s')"
  shows "store s' = store s \<and> store s (rid, name) = None \<and>
     (\<exists>e m. f = StepFailure name e \<and> attempts s' \<noteq> [] \<and>
        last (attempts s') =
          \<lparr>attempt_run = rid, attempt_step = name, attempt_number = m, attempt_outcome = Inl e\<rparr>)"
  using assms attempt_loop_failure[of pol rid name work 1 s f]
  by (auto simp: execute_def split: option.splits)

lemma execute_success_from_work:
  "execute pol rid name work s = (Inr v, s') \<Longrightarrow> store s (rid, name) = None \<Longrightarrow>
     \<exists>w w'. work w = (Inr v, w')"
  using attempt_loop_success_from_work[of pol rid name work 1 s v]
  by (auto simp: execute_def)

lemma execute_attempts:
  "\<exists>new. attempts (snd (execute pol rid name work s)) = attempts s @ new \<and>
         length new \<le> max 1 (max_attempts pol) \<and>
         list_all (\<lambda>a. attempt_run a = rid \<and> attempt_step a = name) new"
proof (cases "store s (rid, name)")
  case None
  with attempt_loop_attempts[of pol rid name work 1 s] show ?thesis
    by (auto simp: execute_def)
next
  case (Some v)
  then show ?thesis by (simp add: execute_def)
qed

lemma filter_none: "list_all (\<lambda>a. \<not> P a) xs \<Longrightarrow> filter P xs = []"
  by (induction xs) auto

lemma execute_attempts_other:
  assumes "(rid', name') \<noteq> (rid, name)"
  shows "attempts_of rid' name' (snd (execute pol rid name work s)) = attempts_of rid' name' s"
proof -
  from execute_attempts[of pol rid name work s] obtain new where
    new: "attempts (snd (execute pol rid name work s)) = attempts s @ new"
         "list_all (\<lambda>a. attempt_run a = rid \<and> attempt_step a = name) new"
    by blast
  from new(2) assms have "list_all (\<lambda>a. \<not> (attempt_run a = rid' \<and> attempt_step a = name')) new"
    by (induction new) auto
  from filter_none[OF this] new(1) show ?thesis by (simp add: attempts_of_def)
qed

lemma execute_attempts_bound:
  "length (attempts_of rid name (snd (execute pol rid name work s)))
     \<le> length (attempts_of rid name s) + max 1 (max_attempts pol)"
proof -
  from execute_attempts[of pol rid name work s] obtain new where
    new: "attempts (snd (execute pol rid name work s)) = attempts s @ new"
         "length new \<le> max 1 (max_attempts pol)"
    by blast
  have "length (filter (\<lambda>a. attempt_run a = rid \<and> attempt_step a = name) new) \<le> length new"
    by (rule length_filter_le)
  with new(2)
  have "length (filter (\<lambda>a. attempt_run a = rid \<and> attempt_step a = name) new)
          \<le> max 1 (max_attempts pol)"
    by linarith
  with new(1) show ?thesis by (simp add: attempts_of_def)
qed

lemma execute_always_fails:
  "\<forall>w. isl (fst (work w)) \<Longrightarrow> store s (rid, name) = None \<Longrightarrow>
     isl (fst (execute pol rid name work s))"
  by (simp add: execute_def attempt_loop_always_fails)

section \<open>The scenario, evaluated\<close>

lemma submitted_engine_eq:
  "submitted_engine = empty_engine\<lparr>registry := (\<lambda>k. None)(test_uuid \<mapsto> scenario_run_rec)\<rparr>"
  by (simp add: submitted_engine_def engine_step_def fetch_def workflow_create_def dispatch_def
        scenario_run_rec_def post_enhance_def test_host_def table_parse_def parse_table_def
        payload_text_def quoted_def dquote_def payload_value_def empty_engine_def)

lemma scenario_step1:
  "analyze_prompt (test_host scenario_answer) (JStr q) n = (Inr analysis_value, Suc n)"
  by (simp add: analyze_prompt_def model_output_def analyze_request_def scenario_defs)

lemma scenario_step2:
  "select_strategy (test_host scenario_answer) analysis_value n = (Inr strategy_value, Suc n)"
  by (simp add: select_strategy_def model_output_def strategy_request_def scenario_defs)

lemma scenario_step3: "generate_enhancement (test_host scenario_answer) (JStr ''write an email'')
         (JStr ''professional'') (JStr ''General LLM'') analysis_value strategy_value n
       = (Inr scenario_result, Suc n)"
  by (simp add: generate_enhancement_def enhancement_request_def final_result_def
       model_output_def scenario_result_def scenario_defs)

lemma scenario_payload:
  "destructure_payload payload_value
     = Inr (JStr ''write an email'', JStr ''professional'', JStr ''General LLM'')"
  by (simp add: destructure_payload_def payload_value_def)

lemma scenario_run:
  "run (test_host scenario_answer) (execute test_policy test_uuid) payload_value submitted_engine
     = (Inr scenario_result, completed_engine)"
  by (simp add: run_def scenario_payload execute_def
      submitted_engine_eq empty_engine_def attempt_loop_success scenario_step1 scenario_step2 scenario_step3
      log_attempt_def completed_engine_def)

section \<open>The run under the Step Executor\<close>

lemma run_invariant:
  assumes step: "\<And>name work t. P t \<Longrightarrow> P (snd (step_do name work t))"
    and init: "P s"
  shows "P (snd (run h step_do payload s))"
proof (cases "destructure_payload payload")
  case (Inl e)
  with init show ?thesis by (simp add: run_def)
next
  case (Inr x)
  obtain prompt tone targetModel where x: "x = (prompt, tone, targetModel)" by (cases x)
  let ?r1 = "step_do ''analyze-prompt'' (analyze_prompt h prompt) s"
  have p1: "P (snd ?r1)" by (rule step[OF init])
  show ?thesis
  proof (cases "fst ?r1")
    case (Inl f)
    with Inr x p1 show ?thesis by (auto simp: run_def split: prod.splits)
  next
    case analysis: (Inr analysis)
    let ?r2 = "step_do ''select-strategy'' (select_strategy h analysis) (snd ?r1)"
    have p2: "P (snd ?r2)" by (rule step[OF p1])
    show ?thesis
    proof (cases "fst ?r2")
      case (Inl f)
      with Inr x analysis p2 show ?thesis by (auto simp: run_def split: prod.splits)
    next
      case strategy: (Inr strategy)
      have "P (snd (step_do ''generate-enhancement''
               (generate_enhancement h prompt tone targetModel analysis strategy) (snd ?r2)))"
        by (rule step[OF p2])
      with Inr x analysis strategy show ?thesis by (auto simp: run_def split: prod.splits)
    qed
  qed
qed

lemma execute_attempts_stored:
  assumes "store s (rid, name) = Some v"
  shows "attempts_of rid name (snd (execute pol rid name' work s)) = attempts_of rid name s"
proof (cases "name' = name")
  case True
  with assms show ?thesis by (simp add: execute_replay)
next
  case False
  then show ?thesis by (simp add: execute_attempts_other)
qed

lemma run_registry: "registry (snd (run h (execute pol rid) payload s)) = registry s"
  by (rule run_invariant[where P = "\<lambda>t. registry t = registry s"])
     (simp_all add: execute_registry)

lemma run_store_keeps:
  "store s k = Some v \<Longrightarrow> store (snd (run h (execute pol rid) payload s)) k = Some v"
  by (rule run_invariant[where P = "\<lambda>t. store t k = Some v"])
     (simp_all add: execute_store_keeps)

lemma run_attempts_stored:
  assumes "store s (rid, name) = Some v"
  shows "attempts_of rid name (snd (run h (execute pol rid) payload s)) = attempts_of rid name s"
proof -
  have "store (snd (run h (execute pol rid) payload s)) (rid, name) = Some v
        \<and> attempts_of rid name (snd (run h (execute pol rid) payload s)) = attempts_of rid name s"
    by (rule run_invariant[where P = "\<lambda>t. store t (rid, name) = Some v
                                          \<and> attempts_of rid name t = attempts_of rid name s"])
       (simp_all add: assms execute_store_keeps execute_attempts_stored)
  then show ?thesis ..
qed

section \<open>Replay\<close>

text \<open>
  Claim C5. When a StepResult is stored for step S of a Run, executing S returns the
  stored value and leaves the engine as it was: no StepAttempt is logged, the world the
  work acts on is untouched. Re-driving the whole Run from such a state logs no attempt
  for S and keeps its StepResult, whichever step S is; and when all three steps have a
  StepResult, re-driving changes nothing at all and returns the last step's.
\<close>

theorem replay_never_reinvokes:
  "(store s (rid, name) = Some v \<longrightarrow>
      execute pol rid name work s = (Inr v, s)
      \<and> attempts_of rid name (snd (run h (execute pol rid) payload s)) = attempts_of rid name s
      \<and> store (snd (run h (execute pol rid) payload s)) (rid, name) = Some v)
   \<and> (store s (rid, ''analyze-prompt'') = Some a \<and> store s (rid, ''select-strategy'') = Some b
      \<and> store s (rid, ''generate-enhancement'') = Some c
      \<and> destructure_payload payload = Inr x
      \<longrightarrow> run h (execute pol rid) payload s = (Inr c, s))"
proof (intro conjI impI)
  assume st: "store s (rid, name) = Some v"
  then show "execute pol rid name work s = (Inr v, s)" by (rule execute_replay)
  from st show "attempts_of rid name (snd (run h (execute pol rid) payload s))
                  = attempts_of rid name s"
    by (rule run_attempts_stored)
  from st show "store (snd (run h (execute pol rid) payload s)) (rid, name) = Some v"
    by (rule run_store_keeps)
next
  assume "store s (rid, ''analyze-prompt'') = Some a \<and> store s (rid, ''select-strategy'') = Some b
      \<and> store s (rid, ''generate-enhancement'') = Some c
      \<and> destructure_payload payload = Inr x"
  then show "run h (execute pol rid) payload s = (Inr c, s)"
    by (cases x) (simp add: run_def execute_replay)
qed

theorem replay_never_reinvokes_witness:
  "execute test_policy test_uuid ''select-strategy''
       (select_strategy (test_host timeout_answer) analysis_value) completed_engine
     = (Inr strategy_value, completed_engine)
   \<and> attempts_of test_uuid ''select-strategy''
        (snd (run (test_host timeout_answer) (execute test_policy test_uuid) payload_value
               completed_engine))
      = attempts_of test_uuid ''select-strategy'' completed_engine
   \<and> store (snd (run (test_host timeout_answer) (execute test_policy test_uuid) payload_value
               completed_engine)) (test_uuid, ''select-strategy'') = Some strategy_value
   \<and> run (test_host timeout_answer) (execute test_policy test_uuid) payload_value
         completed_engine = (Inr scenario_result, completed_engine)"
  using replay_never_reinvokes
    [where s = completed_engine and rid = test_uuid and name = "''select-strategy''"
       and v = strategy_value and pol = test_policy
       and work = "select_strategy (test_host timeout_answer) analysis_value"
       and h = "test_host timeout_answer" and payload = payload_value
       and a = analysis_value and b = strategy_value and c = scenario_result
       and x = "(JStr ''write an email'', JStr ''professional'', JStr ''General LLM'')"]
  by (simp add: completed_engine_def scenario_payload)

section \<open>Driving a Run\<close>

lemma drive_running:
  assumes "registry s rid = Some r" "status r = Running"
    and "run h (execute pol rid) (input_payload r) s = (res, s')"
  shows "drive h pol rid s =
           s'\<lparr>registry := (registry s)(rid \<mapsto>
                (case res of
                   Inl f \<Rightarrow> r\<lparr>status := Failed, failure_detail := Some f,
                              current_step := completed_steps (store s') rid (run_steps r)\<rparr>
                 | Inr out \<Rightarrow> r\<lparr>status := Succeeded, run_result := Some out,
                                current_step := completed_steps (store s') rid (run_steps r)\<rparr>))\<rparr>"
proof -
  from run_registry[of h pol rid "input_payload r" s] assms(3)
  have "registry s' = registry s" by simp
  with assms show ?thesis by (simp add: drive_def split: sum.splits)
qed

lemma drive_not_running:
  "registry s rid = Some r \<Longrightarrow> status r \<noteq> Running \<Longrightarrow> drive h pol rid s = s"
  by (simp add: drive_def)

lemma drive_unknown: "registry s rid = None \<Longrightarrow> drive h pol rid s = s"
  by (simp add: drive_def)

lemma drive_failed:
  assumes "registry s rid = Some r" "status r = Running"
    and "run h (execute pol rid) (input_payload r) s = (Inl (StepFailure name e), s')"
    and "attempts s' \<noteq> []"
    and "last (attempts s') =
           \<lparr>attempt_run = rid, attempt_step = name, attempt_number = m, attempt_outcome = Inl e\<rparr>"
  shows "failed_at rid name (StepFailure name e) (drive h pol rid s)"
    and "attempts (drive h pol rid s) = attempts s'"
    and "store (drive h pol rid s) = store s'"
  using assms(4,5) unfolding drive_running[OF assms(1-3)]
  by (simp_all add: failed_at_def instance_status_def)

lemma untouched_execute:
  "name' \<noteq> name \<Longrightarrow> untouched rid name' s (snd (execute pol rid name work s))"
  by (simp add: untouched_def execute_attempts_other execute_store_other)

lemma untouched_trans:
  "untouched rid name s t \<Longrightarrow> untouched rid name t u \<Longrightarrow> untouched rid name s u"
  by (simp add: untouched_def)

lemma untouched_cong:
  "attempts u = attempts t \<Longrightarrow> store u = store t \<Longrightarrow> untouched rid name s t \<Longrightarrow>
     untouched rid name s u"
  by (simp add: untouched_def attempts_of_def)

lemma run_fails_at_analyze:
  assumes "destructure_payload payload = Inr (prompt, tone, targetModel)"
    and "step_do ''analyze-prompt'' (analyze_prompt h prompt) s = (Inl f, s1)"
  shows "run h step_do payload s = (Inl f, s1)"
  using assms by (simp add: run_def)

lemma run_fails_at_select:
  assumes "destructure_payload payload = Inr (prompt, tone, targetModel)"
    and "step_do ''analyze-prompt'' (analyze_prompt h prompt) s = (Inr analysis, s1)"
    and "step_do ''select-strategy'' (select_strategy h analysis) s1 = (Inl f, s2)"
  shows "run h step_do payload s = (Inl f, s2)"
  using assms by (simp add: run_def)

lemma run_reaches_generate:
  assumes "destructure_payload payload = Inr (prompt, tone, targetModel)"
    and "step_do ''analyze-prompt'' (analyze_prompt h prompt) s = (Inr analysis, s1)"
    and "step_do ''select-strategy'' (select_strategy h analysis) s1 = (Inr strategy, s2)"
  shows "run h step_do payload s =
           step_do ''generate-enhancement''
             (generate_enhancement h prompt tone targetModel analysis strategy) s2"
  using assms by (simp add: run_def)

text \<open>A step that fails under the executor, seen from the Run that is driven.\<close>

lemma drive_failed_step:
  assumes reg: "registry s rid = Some r" "status r = Running"
    and run: "run h (execute pol rid) (input_payload r) s = (Inl f, t')"
    and ex: "execute pol rid name work t = (Inl f, t')"
  shows "failed_at rid name f (drive h pol rid s)"
    and "attempts (drive h pol rid s) = attempts t'"
    and "store (drive h pol rid s) = store t'"
proof -
  from execute_failure[OF ex] obtain e m where
    f: "f = StepFailure name e" "attempts t' \<noteq> []"
       "last (attempts t') =
          \<lparr>attempt_run = rid, attempt_step = name, attempt_number = m, attempt_outcome = Inl e\<rparr>"
    by blast
  from drive_failed[OF reg run[unfolded f(1)] f(2,3)] f(1)
  show "failed_at rid name f (drive h pol rid s)"
    and "attempts (drive h pol rid s) = attempts t'"
    and "store (drive h pol rid s) = store t'"
    by simp_all
qed


lemma drive_twice: "drive h pol rid (drive h pol rid s) = drive h pol rid s"
proof (cases "registry s rid")
  case None
  then show ?thesis by (simp add: drive_unknown)
next
  case (Some r)
  show ?thesis
  proof (cases "status r = Running")
    case False
    with Some show ?thesis by (simp add: drive_not_running)
  next
    case True
    obtain res s' where run: "run h (execute pol rid) (input_payload r) s = (res, s')"
      by (cases "run h (execute pol rid) (input_payload r) s")
    show ?thesis
      unfolding drive_running[OF Some True run]
      by (cases res) (simp_all add: drive_def)
  qed
qed

subsection \<open>Evaluating the executor on the concrete hosts\<close>

lemma execute_first_try:
  assumes "work (world s) = (Inr out, w')" "store s (rid, name) = None"
  shows "execute pol rid name work s =
           (Inr out, (log_attempt rid name 1 (Inr out) w' s)\<lparr>store := (store s)((rid, name) \<mapsto> out)\<rparr>)"
  using assms by (simp add: execute_def attempt_loop_success)

lemma execute_three_timeouts:
  assumes "\<And>n. work n = (Inl (HostError ''timeout''), Suc n)" "store s (rid, name) = None"
  shows "execute test_policy rid name work s =
    (Inl (StepFailure name (HostError ''timeout'')),
     s\<lparr>world := Suc (Suc (Suc (world s))),
       attempts := attempts s @
         [\<lparr>attempt_run = rid, attempt_step = name, attempt_number = 1,
           attempt_outcome = Inl (HostError ''timeout'')\<rparr>,
          \<lparr>attempt_run = rid, attempt_step = name, attempt_number = 2,
           attempt_outcome = Inl (HostError ''timeout'')\<rparr>,
          \<lparr>attempt_run = rid, attempt_step = name, attempt_number = 3,
           attempt_outcome = Inl (HostError ''timeout'')\<rparr>],
       delays := delays s @ [10, 20]\<rparr>)"
proof -
  let ?e = "HostError ''timeout''"
  let ?s1 = "(log_attempt rid name 1 (Inl ?e) (Suc (world s)) s)\<lparr>delays := delays s @ [10]\<rparr>"
  let ?s2 = "(log_attempt rid name 2 (Inl ?e) (Suc (world ?s1)) ?s1)\<lparr>delays := delays ?s1 @ [20]\<rparr>"
  have r1: "attempt_loop test_policy rid name work 1 s = attempt_loop test_policy rid name work 2 ?s1"
    using attempt_loop_retry[of work s ?e "Suc (world s)" 1 test_policy rid name] assms(1)
    by (simp add: test_policy_def numeral_2_eq_2)
  have r2: "attempt_loop test_policy rid name work 2 ?s1 = attempt_loop test_policy rid name work 3 ?s2"
    using attempt_loop_retry[of work ?s1 ?e "Suc (world ?s1)" 2 test_policy rid name] assms(1)
    by (simp add: test_policy_def numeral_3_eq_3 numeral_2_eq_2)
  have r3: "attempt_loop test_policy rid name work 3 ?s2
      = (Inl (StepFailure name ?e), log_attempt rid name 3 (Inl ?e) (Suc (world ?s2)) ?s2)"
    using attempt_loop_give_up[of work ?s2 ?e "Suc (world ?s2)" test_policy 3 rid name] assms(1)
    by (simp add: test_policy_def)
  from assms(2)
  have "execute test_policy rid name work s = attempt_loop test_policy rid name work 1 s"
    by (simp add: execute_def)
  also note r1
  also note r2
  also note r3
  finally show ?thesis by (simp add: log_attempt_def)
qed

lemma fail_on_analysis:
  "analyze_prompt (test_host (fail_on analysis_schema)) (JStr q) n
     = (Inl (HostError ''timeout''), Suc n)"
  by (simp add: analyze_prompt_def model_output_def analyze_request_def fail_on_def test_host_def)

lemma fail_on_strategy:
  "analyze_prompt (test_host (fail_on strategy_schema)) (JStr q) n = (Inr analysis_value, Suc n)"
  "select_strategy (test_host (fail_on strategy_schema)) analysis_value n
     = (Inl (HostError ''timeout''), Suc n)"
  by (simp_all add: analyze_prompt_def select_strategy_def model_output_def analyze_request_def
        strategy_request_def fail_on_def scenario_defs)

lemma fail_on_enhancement:
  "analyze_prompt (test_host (fail_on enhancement_schema)) (JStr q) n = (Inr analysis_value, Suc n)"
  "select_strategy (test_host (fail_on enhancement_schema)) analysis_value n
     = (Inr strategy_value, Suc n)"
  "generate_enhancement (test_host (fail_on enhancement_schema)) (JStr q) (JStr t) (JStr m)
     analysis_value strategy_value n = (Inl (HostError ''timeout''), Suc n)"
  by (simp_all add: analyze_prompt_def select_strategy_def generate_enhancement_def
        model_output_def analyze_request_def strategy_request_def enhancement_request_def
        fail_on_def scenario_defs)

lemma submitted_engine_simps:
  "registry submitted_engine test_uuid = Some scenario_run_rec"
  "status scenario_run_rec = Running"
  "input_payload scenario_run_rec = payload_value"
  "store submitted_engine = (\<lambda>k. None)"
  "attempts submitted_engine = []"
  "world submitted_engine = 0"
  by (simp_all add: submitted_engine_eq scenario_run_rec_def empty_engine_def)

section \<open>A failing step\<close>

text \<open>
  Claim C6. A Run is running with a payload that destructures. If the executor fails the
  first step, the Run is failed with that failure recorded, the failure names the first
  step and carries the error of the last attempt, and the second and the third step are
  not executed. If the first step succeeds and the second fails, the Run is failed with
  the second step's failure and the third step is not executed. If the third fails
  after the first two succeeded, the Run is failed with the third step's failure.
  Driving the Run again changes nothing.
\<close>

theorem failed_step_recorded:
  assumes "registry s rid = Some r" and "status r = Running"
    and "destructure_payload (input_payload r) = Inr (prompt, tone, targetModel)"
  shows
    "(execute pol rid ''analyze-prompt'' (analyze_prompt h prompt) s = (Inl f, s1) \<longrightarrow>
        failed_at rid ''analyze-prompt'' f (drive h pol rid s)
        \<and> untouched rid ''select-strategy'' s (drive h pol rid s)
        \<and> untouched rid ''generate-enhancement'' s (drive h pol rid s))
     \<and> (execute pol rid ''analyze-prompt'' (analyze_prompt h prompt) s = (Inr analysis, s1)
        \<and> execute pol rid ''select-strategy'' (select_strategy h analysis) s1 = (Inl f, s2) \<longrightarrow>
        failed_at rid ''select-strategy'' f (drive h pol rid s)
        \<and> untouched rid ''generate-enhancement'' s (drive h pol rid s))
     \<and> (execute pol rid ''analyze-prompt'' (analyze_prompt h prompt) s = (Inr analysis, s1)
        \<and> execute pol rid ''select-strategy'' (select_strategy h analysis) s1 = (Inr strategy, s2)
        \<and> execute pol rid ''generate-enhancement''
              (generate_enhancement h prompt tone targetModel analysis strategy) s2 = (Inl f, s3) \<longrightarrow>
        failed_at rid ''generate-enhancement'' f (drive h pol rid s))
     \<and> drive h pol rid (drive h pol rid s) = drive h pol rid s"
proof (intro conjI impI)
  assume e1: "execute pol rid ''analyze-prompt'' (analyze_prompt h prompt) s = (Inl f, s1)"
  note run = run_fails_at_analyze[where step_do = "execute pol rid", OF assms(3) e1]
  note d = drive_failed_step[OF assms(1,2) run e1]
  show "failed_at rid ''analyze-prompt'' f (drive h pol rid s)" by (rule d(1))
  have u: "\<And>name. name \<noteq> ''analyze-prompt'' \<Longrightarrow> untouched rid name s s1"
    using untouched_execute[of _ "''analyze-prompt''" rid s pol "analyze_prompt h prompt"] e1
    by simp
  show "untouched rid ''select-strategy'' s (drive h pol rid s)"
    by (rule untouched_cong[OF d(2,3)]) (simp add: u)
  show "untouched rid ''generate-enhancement'' s (drive h pol rid s)"
    by (rule untouched_cong[OF d(2,3)]) (simp add: u)
next
  assume "execute pol rid ''analyze-prompt'' (analyze_prompt h prompt) s = (Inr analysis, s1)
        \<and> execute pol rid ''select-strategy'' (select_strategy h analysis) s1 = (Inl f, s2)"
  then have e1: "execute pol rid ''analyze-prompt'' (analyze_prompt h prompt) s = (Inr analysis, s1)"
    and e2: "execute pol rid ''select-strategy'' (select_strategy h analysis) s1 = (Inl f, s2)"
    by simp_all
  note run = run_fails_at_select[where step_do = "execute pol rid", OF assms(3) e1 e2]
  note d = drive_failed_step[OF assms(1,2) run e2]
  show "failed_at rid ''select-strategy'' f (drive h pol rid s)" by (rule d(1))
  have "untouched rid ''generate-enhancement'' s s1"
    using untouched_execute[of "''generate-enhancement''" "''analyze-prompt''" rid s pol
            "analyze_prompt h prompt"] e1 by simp
  moreover have "untouched rid ''generate-enhancement'' s1 s2"
    using untouched_execute[of "''generate-enhancement''" "''select-strategy''" rid s1 pol
            "select_strategy h analysis"] e2 by simp
  ultimately have "untouched rid ''generate-enhancement'' s s2" by (rule untouched_trans)
  then show "untouched rid ''generate-enhancement'' s (drive h pol rid s)"
    by (rule untouched_cong[OF d(2,3)])
next
  assume "execute pol rid ''analyze-prompt'' (analyze_prompt h prompt) s = (Inr analysis, s1)
        \<and> execute pol rid ''select-strategy'' (select_strategy h analysis) s1 = (Inr strategy, s2)
        \<and> execute pol rid ''generate-enhancement''
              (generate_enhancement h prompt tone targetModel analysis strategy) s2 = (Inl f, s3)"
  then have e1: "execute pol rid ''analyze-prompt'' (analyze_prompt h prompt) s = (Inr analysis, s1)"
    and e2: "execute pol rid ''select-strategy'' (select_strategy h analysis) s1 = (Inr strategy, s2)"
    and e3: "execute pol rid ''generate-enhancement''
              (generate_enhancement h prompt tone targetModel analysis strategy) s2 = (Inl f, s3)"
    by simp_all
  from run_reaches_generate[where step_do = "execute pol rid", OF assms(3) e1 e2] e3
  have run: "run h (execute pol rid) (input_payload r) s = (Inl f, s3)" by simp
  show "failed_at rid ''generate-enhancement'' f (drive h pol rid s)"
    by (rule drive_failed_step(1)[OF assms(1,2) run e3])
next
  show "drive h pol rid (drive h pol rid s) = drive h pol rid s" by (rule drive_twice)
qed


theorem failed_step_recorded_witness:
  "failed_at test_uuid ''analyze-prompt'' (StepFailure ''analyze-prompt'' (HostError ''timeout''))
      (drive (test_host (fail_on analysis_schema)) test_policy test_uuid submitted_engine)
   \<and> untouched test_uuid ''select-strategy'' submitted_engine
      (drive (test_host (fail_on analysis_schema)) test_policy test_uuid submitted_engine)
   \<and> untouched test_uuid ''generate-enhancement'' submitted_engine
      (drive (test_host (fail_on analysis_schema)) test_policy test_uuid submitted_engine)
   \<and> failed_at test_uuid ''select-strategy'' (StepFailure ''select-strategy'' (HostError ''timeout''))
      (drive (test_host (fail_on strategy_schema)) test_policy test_uuid submitted_engine)
   \<and> untouched test_uuid ''generate-enhancement'' submitted_engine
      (drive (test_host (fail_on strategy_schema)) test_policy test_uuid submitted_engine)
   \<and> failed_at test_uuid ''generate-enhancement''
        (StepFailure ''generate-enhancement'' (HostError ''timeout''))
      (drive (test_host (fail_on enhancement_schema)) test_policy test_uuid submitted_engine)"
proof -
  let ?e = "HostError ''timeout''"
  let ?p = "JStr ''write an email''"
  note reg = submitted_engine_simps(1,2)
  have pay: "destructure_payload (input_payload scenario_run_rec)
               = Inr (?p, JStr ''professional'', JStr ''General LLM'')"
    by (simp add: submitted_engine_simps scenario_payload)
  let ?h1 = "test_host (fail_on analysis_schema)"
  let ?x1 = "execute test_policy test_uuid ''analyze-prompt'' (analyze_prompt ?h1 ?p) submitted_engine"
  have a: "?x1 = (Inl (StepFailure ''analyze-prompt'' ?e), snd ?x1)"
    by (simp add: execute_three_timeouts fail_on_analysis submitted_engine_simps)
  let ?h2 = "test_host (fail_on strategy_schema)"
  let ?y1 = "execute test_policy test_uuid ''analyze-prompt'' (analyze_prompt ?h2 ?p) submitted_engine"
  let ?y2 = "execute test_policy test_uuid ''select-strategy'' (select_strategy ?h2 analysis_value)
               (snd ?y1)"
  have b1: "?y1 = (Inr analysis_value, snd ?y1)"
    by (simp add: execute_first_try fail_on_strategy submitted_engine_simps)
  have b2: "?y2 = (Inl (StepFailure ''select-strategy'' ?e), snd ?y2)"
    by (simp add: execute_first_try execute_three_timeouts fail_on_strategy submitted_engine_simps
          log_attempt_def)
  let ?h3 = "test_host (fail_on enhancement_schema)"
  let ?z1 = "execute test_policy test_uuid ''analyze-prompt'' (analyze_prompt ?h3 ?p) submitted_engine"
  let ?z2 = "execute test_policy test_uuid ''select-strategy'' (select_strategy ?h3 analysis_value)
               (snd ?z1)"
  let ?z3 = "execute test_policy test_uuid ''generate-enhancement''
               (generate_enhancement ?h3 ?p (JStr ''professional'') (JStr ''General LLM'')
                  analysis_value strategy_value) (snd ?z2)"
  have c1: "?z1 = (Inr analysis_value, snd ?z1)"
    by (simp add: execute_first_try fail_on_enhancement submitted_engine_simps)
  have c2: "?z2 = (Inr strategy_value, snd ?z2)"
    by (simp add: execute_first_try fail_on_enhancement submitted_engine_simps log_attempt_def)
  have c3: "?z3 = (Inl (StepFailure ''generate-enhancement'' ?e), snd ?z3)"
    by (simp add: execute_first_try execute_three_timeouts fail_on_enhancement
          submitted_engine_simps log_attempt_def)
  from failed_step_recorded[OF reg pay, where pol = test_policy and h = ?h1
         and f = "StepFailure ''analyze-prompt'' ?e" and ?s1.0 = "snd ?x1", THEN conjunct1] a
  have w1: "failed_at test_uuid ''analyze-prompt'' (StepFailure ''analyze-prompt'' ?e)
               (drive ?h1 test_policy test_uuid submitted_engine)
            \<and> untouched test_uuid ''select-strategy'' submitted_engine
               (drive ?h1 test_policy test_uuid submitted_engine)
            \<and> untouched test_uuid ''generate-enhancement'' submitted_engine
               (drive ?h1 test_policy test_uuid submitted_engine)"
    by blast
  from failed_step_recorded[OF reg pay, where pol = test_policy and h = ?h2
         and f = "StepFailure ''select-strategy'' ?e" and ?s1.0 = "snd ?y1"
         and analysis = analysis_value and ?s2.0 = "snd ?y2",
         THEN conjunct2, THEN conjunct1] b1 b2
  have w2: "failed_at test_uuid ''select-strategy'' (StepFailure ''select-strategy'' ?e)
               (drive ?h2 test_policy test_uuid submitted_engine)
            \<and> untouched test_uuid ''generate-enhancement'' submitted_engine
               (drive ?h2 test_policy test_uuid submitted_engine)"
    by blast
  from failed_step_recorded[OF reg pay, where pol = test_policy and h = ?h3
         and f = "StepFailure ''generate-enhancement'' ?e" and ?s1.0 = "snd ?z1"
         and analysis = analysis_value and ?s2.0 = "snd ?z2" and strategy = strategy_value
         and ?s3.0 = "snd ?z3",
         THEN conjunct2, THEN conjunct2, THEN conjunct1] c1 c2 c3
  have w3: "failed_at test_uuid ''generate-enhancement''
               (StepFailure ''generate-enhancement'' ?e)
               (drive ?h3 test_policy test_uuid submitted_engine)"
    by blast
  from w1 w2 w3 show ?thesis by blast
qed

section \<open>A step that always fails\<close>

lemma filter_all: "list_all P xs \<Longrightarrow> filter P xs = xs"
  by (induction xs) auto

lemma execute_exhausts:
  assumes "\<forall>w. \<exists>e. fst (work w) = Inl e \<and> \<not> non_retryable e" "store s (rid, name) = None"
  shows "length (attempts_of rid name (snd (execute pol rid name work s)))
           = length (attempts_of rid name s) + max 1 (max_attempts pol)"
proof -
  from attempt_loop_attempts[of pol rid name work 1 s] obtain new where
    new: "attempts (snd (attempt_loop pol rid name work 1 s)) = attempts s @ new"
         "list_all (\<lambda>a. attempt_run a = rid \<and> attempt_step a = name) new"
    by blast
  from attempt_loop_exhausts[OF assms(1), of pol rid name 1 s] new(1)
  have "length new = max 1 (max_attempts pol)" by simp
  with new filter_all[OF new(2)] assms(2) show ?thesis
    by (simp add: execute_def attempts_of_def)
qed

lemma execute_always_fails_step:
  assumes "\<forall>w. isl (fst (work w))" "store s (rid, name) = None"
  obtains e where "execute pol rid name work s = (Inl (StepFailure name e), snd (execute pol rid name work s))"
proof -
  from execute_always_fails[OF assms, of pol]
  obtain f where "fst (execute pol rid name work s) = Inl f"
    by (auto simp: isl_def)
  then have f: "execute pol rid name work s = (Inl f, snd (execute pol rid name work s))"
    by (metis prod.collapse)
  from execute_failure[OF f] obtain e where "f = StepFailure name e" by blast
  with f that show ?thesis by simp
qed

text \<open>
  Claim C8. The executor is a total function, so every execution of a step ends. When
  a step has no StepResult and its work fails in every world, the execution ends in a
  failure that names the step, after at least one and at most \<open>max 1 (max_attempts pol)\<close>
  attempts; when moreover none of the errors is marked non-retryable, after exactly that
  many, the cap. A running Run whose first step is such a step ends failed with the
  first step's name recorded; so does one whose second step is such a step after the
  first succeeded, and one whose third step is such a step after the first two
  succeeded.
\<close>

theorem always_failing_step_exhausts_cap:
  assumes "registry s rid = Some r" and "status r = Running"
    and "destructure_payload (input_payload r) = Inr (prompt, tone, targetModel)"
  shows
    "(store t (rid, name) = None \<and> (\<forall>w. isl (fst (work w))) \<longrightarrow>
        (\<exists>e. fst (execute pol rid name work t) = Inl (StepFailure name e))
        \<and> length (attempts_of rid name t) < length (attempts_of rid name (snd (execute pol rid name work t)))
        \<and> length (attempts_of rid name (snd (execute pol rid name work t)))
            \<le> length (attempts_of rid name t) + max 1 (max_attempts pol))
     \<and> (store t (rid, name) = None \<and> (\<forall>w. \<exists>e. fst (work w) = Inl e \<and> \<not> non_retryable e) \<longrightarrow>
        length (attempts_of rid name (snd (execute pol rid name work t)))
          = length (attempts_of rid name t) + max 1 (max_attempts pol))
     \<and> (store s (rid, ''analyze-prompt'') = None
        \<and> (\<forall>w. isl (fst (analyze_prompt h prompt w))) \<longrightarrow>
        (\<exists>e. failed_at rid ''analyze-prompt'' (StepFailure ''analyze-prompt'' e) (drive h pol rid s)))
     \<and> (execute pol rid ''analyze-prompt'' (analyze_prompt h prompt) s = (Inr analysis, s1)
        \<and> store s (rid, ''select-strategy'') = None
        \<and> (\<forall>w. isl (fst (select_strategy h analysis w))) \<longrightarrow>
        (\<exists>e. failed_at rid ''select-strategy'' (StepFailure ''select-strategy'' e) (drive h pol rid s)))
     \<and> (execute pol rid ''analyze-prompt'' (analyze_prompt h prompt) s = (Inr analysis, s1)
        \<and> execute pol rid ''select-strategy'' (select_strategy h analysis) s1 = (Inr strategy, s2)
        \<and> store s (rid, ''generate-enhancement'') = None
        \<and> (\<forall>w. isl (fst (generate_enhancement h prompt tone targetModel analysis strategy w))) \<longrightarrow>
        (\<exists>e. failed_at rid ''generate-enhancement'' (StepFailure ''generate-enhancement'' e)
               (drive h pol rid s)))"
proof (intro conjI impI)
  assume a: "store t (rid, name) = None \<and> (\<forall>w. isl (fst (work w)))"
  then obtain e where e: "execute pol rid name work t
      = (Inl (StepFailure name e), snd (execute pol rid name work t))"
    using execute_always_fails_step[of work t rid name pol] by blast
  then show "\<exists>e. fst (execute pol rid name work t) = Inl (StepFailure name e)"
    by (metis fst_conv)
  show "length (attempts_of rid name (snd (execute pol rid name work t)))
            \<le> length (attempts_of rid name t) + max 1 (max_attempts pol)"
    by (rule execute_attempts_bound)
  from attempt_loop_attempts[of pol rid name work 1 t] obtain new where
    new: "attempts (snd (attempt_loop pol rid name work 1 t)) = attempts t @ new" "new \<noteq> []"
         "list_all (\<lambda>a. attempt_run a = rid \<and> attempt_step a = name) new"
    by blast
  from new filter_all[OF new(3)] a
  show "length (attempts_of rid name t) < length (attempts_of rid name (snd (execute pol rid name work t)))"
    by (simp add: execute_def attempts_of_def)
next
  assume "store t (rid, name) = None \<and> (\<forall>w. \<exists>e. fst (work w) = Inl e \<and> \<not> non_retryable e)"
  then show "length (attempts_of rid name (snd (execute pol rid name work t)))
          = length (attempts_of rid name t) + max 1 (max_attempts pol)"
    by (simp add: execute_exhausts)
next
  assume a: "store s (rid, ''analyze-prompt'') = None
        \<and> (\<forall>w. isl (fst (analyze_prompt h prompt w)))"
  then obtain e where e: "execute pol rid ''analyze-prompt'' (analyze_prompt h prompt) s
      = (Inl (StepFailure ''analyze-prompt'' e),
         snd (execute pol rid ''analyze-prompt'' (analyze_prompt h prompt) s))"
    using execute_always_fails_step[of "analyze_prompt h prompt" s rid "''analyze-prompt''" pol]
    by blast
  note run = run_fails_at_analyze[where step_do = "execute pol rid", OF assms(3) e]
  from drive_failed_step(1)[OF assms(1,2) run e]
  show "\<exists>e. failed_at rid ''analyze-prompt'' (StepFailure ''analyze-prompt'' e) (drive h pol rid s)"
    by blast
next
  assume a: "execute pol rid ''analyze-prompt'' (analyze_prompt h prompt) s = (Inr analysis, s1)
        \<and> store s (rid, ''select-strategy'') = None
        \<and> (\<forall>w. isl (fst (select_strategy h analysis w)))"
  then have e1: "execute pol rid ''analyze-prompt'' (analyze_prompt h prompt) s = (Inr analysis, s1)"
    by simp
  from execute_store_other[of "(rid, ''select-strategy'')" rid "''analyze-prompt''" pol
         "analyze_prompt h prompt" s] e1 a
  have "store s1 (rid, ''select-strategy'') = None" by simp
  with a obtain e where e: "execute pol rid ''select-strategy'' (select_strategy h analysis) s1
      = (Inl (StepFailure ''select-strategy'' e),
         snd (execute pol rid ''select-strategy'' (select_strategy h analysis) s1))"
    using execute_always_fails_step[of "select_strategy h analysis" s1 rid "''select-strategy''" pol]
    by blast
  note run = run_fails_at_select[where step_do = "execute pol rid", OF assms(3) e1 e]
  from drive_failed_step(1)[OF assms(1,2) run e]
  show "\<exists>e. failed_at rid ''select-strategy'' (StepFailure ''select-strategy'' e) (drive h pol rid s)"
    by blast
next
  assume a: "execute pol rid ''analyze-prompt'' (analyze_prompt h prompt) s = (Inr analysis, s1)
        \<and> execute pol rid ''select-strategy'' (select_strategy h analysis) s1 = (Inr strategy, s2)
        \<and> store s (rid, ''generate-enhancement'') = None
        \<and> (\<forall>w. isl (fst (generate_enhancement h prompt tone targetModel analysis strategy w)))"
  then have e1: "execute pol rid ''analyze-prompt'' (analyze_prompt h prompt) s = (Inr analysis, s1)"
    and e2: "execute pol rid ''select-strategy'' (select_strategy h analysis) s1 = (Inr strategy, s2)"
    by simp_all
  from execute_store_other[of "(rid, ''generate-enhancement'')" rid "''analyze-prompt''" pol
         "analyze_prompt h prompt" s] e1 a
  have "store s1 (rid, ''generate-enhancement'') = None" by simp
  with execute_store_other[of "(rid, ''generate-enhancement'')" rid "''select-strategy''" pol
         "select_strategy h analysis" s1] e2
  have "store s2 (rid, ''generate-enhancement'') = None" by simp
  with a obtain e where e: "execute pol rid ''generate-enhancement''
        (generate_enhancement h prompt tone targetModel analysis strategy) s2
      = (Inl (StepFailure ''generate-enhancement'' e),
         snd (execute pol rid ''generate-enhancement''
                (generate_enhancement h prompt tone targetModel analysis strategy) s2))"
    using execute_always_fails_step[of "generate_enhancement h prompt tone targetModel analysis strategy"
            s2 rid "''generate-enhancement''" pol]
    by blast
  from run_reaches_generate[where step_do = "execute pol rid", OF assms(3) e1 e2] e
  have run: "run h (execute pol rid) (input_payload r) s
      = (Inl (StepFailure ''generate-enhancement'' e),
         snd (execute pol rid ''generate-enhancement''
                (generate_enhancement h prompt tone targetModel analysis strategy) s2))"
    by simp
  from drive_failed_step(1)[OF assms(1,2) run e]
  show "\<exists>e. failed_at rid ''generate-enhancement'' (StepFailure ''generate-enhancement'' e)
               (drive h pol rid s)"
    by blast
qed


theorem always_failing_step_exhausts_cap_witness:
  "(\<exists>e. fst (execute test_policy test_uuid ''analyze-prompt''
               (analyze_prompt (test_host (fail_on analysis_schema)) (JStr ''write an email''))
               submitted_engine) = Inl (StepFailure ''analyze-prompt'' e))
   \<and> length (attempts_of test_uuid ''analyze-prompt''
        (snd (execute test_policy test_uuid ''analyze-prompt''
               (analyze_prompt (test_host (fail_on analysis_schema)) (JStr ''write an email''))
               submitted_engine))) = 3
   \<and> (\<exists>e. failed_at test_uuid ''analyze-prompt'' (StepFailure ''analyze-prompt'' e)
          (drive (test_host (fail_on analysis_schema)) test_policy test_uuid submitted_engine))
   \<and> (\<exists>e. failed_at test_uuid ''select-strategy'' (StepFailure ''select-strategy'' e)
          (drive (test_host (fail_on strategy_schema)) test_policy test_uuid submitted_engine))
   \<and> (\<exists>e. failed_at test_uuid ''generate-enhancement'' (StepFailure ''generate-enhancement'' e)
          (drive (test_host (fail_on enhancement_schema)) test_policy test_uuid submitted_engine))"
proof -
  let ?p = "JStr ''write an email''"
  note reg = submitted_engine_simps(1,2)
  have pay: "destructure_payload (input_payload scenario_run_rec)
               = Inr (?p, JStr ''professional'', JStr ''General LLM'')"
    by (simp add: submitted_engine_simps scenario_payload)
  note inst = always_failing_step_exhausts_cap[OF reg pay, where pol = test_policy]
  let ?h1 = "test_host (fail_on analysis_schema)"
  have w1: "\<exists>e. fst (execute test_policy test_uuid ''analyze-prompt'' (analyze_prompt ?h1 ?p)
               submitted_engine) = Inl (StepFailure ''analyze-prompt'' e)"
    using inst[where t = submitted_engine and name = "''analyze-prompt''"
                and work = "analyze_prompt ?h1 ?p", THEN conjunct1]
    by (simp add: submitted_engine_simps fail_on_analysis)
  have w2: "length (attempts_of test_uuid ''analyze-prompt''
        (snd (execute test_policy test_uuid ''analyze-prompt'' (analyze_prompt ?h1 ?p)
               submitted_engine))) = 3"
    using inst[where t = submitted_engine and name = "''analyze-prompt''"
                and work = "analyze_prompt ?h1 ?p", THEN conjunct2, THEN conjunct1]
    by (simp add: submitted_engine_simps fail_on_analysis attempts_of_def test_policy_def)
  have w3: "\<exists>e. failed_at test_uuid ''analyze-prompt'' (StepFailure ''analyze-prompt'' e)
          (drive ?h1 test_policy test_uuid submitted_engine)"
    using inst[where h = ?h1, THEN conjunct2, THEN conjunct2, THEN conjunct1]
    by (simp add: submitted_engine_simps fail_on_analysis)
  let ?h2 = "test_host (fail_on strategy_schema)"
  let ?y1 = "execute test_policy test_uuid ''analyze-prompt'' (analyze_prompt ?h2 ?p) submitted_engine"
  have b1: "?y1 = (Inr analysis_value, snd ?y1)"
    by (simp add: execute_first_try fail_on_strategy submitted_engine_simps)
  have w4: "\<exists>e. failed_at test_uuid ''select-strategy'' (StepFailure ''select-strategy'' e)
          (drive ?h2 test_policy test_uuid submitted_engine)"
    using inst[where h = ?h2 and analysis = analysis_value and ?s1.0 = "snd ?y1",
              THEN conjunct2, THEN conjunct2, THEN conjunct2, THEN conjunct1] b1
    by (simp add: submitted_engine_simps fail_on_strategy)
  let ?h3 = "test_host (fail_on enhancement_schema)"
  let ?z1 = "execute test_policy test_uuid ''analyze-prompt'' (analyze_prompt ?h3 ?p) submitted_engine"
  let ?z2 = "execute test_policy test_uuid ''select-strategy'' (select_strategy ?h3 analysis_value)
               (snd ?z1)"
  have c1: "?z1 = (Inr analysis_value, snd ?z1)"
    by (simp add: execute_first_try fail_on_enhancement submitted_engine_simps)
  have c2: "?z2 = (Inr strategy_value, snd ?z2)"
    by (simp add: execute_first_try fail_on_enhancement submitted_engine_simps log_attempt_def)
  have w5: "\<exists>e. failed_at test_uuid ''generate-enhancement''
               (StepFailure ''generate-enhancement'' e)
          (drive ?h3 test_policy test_uuid submitted_engine)"
    using inst[where h = ?h3 and analysis = analysis_value and ?s1.0 = "snd ?z1"
                and strategy = strategy_value and ?s2.0 = "snd ?z2",
              THEN conjunct2, THEN conjunct2, THEN conjunct2, THEN conjunct2] c1 c2
    by (simp add: submitted_engine_simps fail_on_enhancement)
  from w1 w2 w3 w4 w5 show ?thesis by blast
qed

section \<open>A run whose three steps succeed\<close>

lemma destructure_payload_prompt:
  "destructure_payload payload = Inr (prompt, tone, targetModel) \<Longrightarrow>
     get_prop payload ''prompt'' = Inr prompt"
  by (auto simp: destructure_payload_def split: sum.splits)

lemma generate_enhancement_success:
  assumes "generate_enhancement h prompt tone targetModel analysis strategy w = (Inr out, w')"
  shows "\<exists>req result technique enhanced_prompt changelog.
           enhancement_request prompt tone targetModel analysis strategy = Inr req
           \<and> model_output h req w = (Inr result, w')
           \<and> get_prop strategy ''technique'' = Inr technique
           \<and> get_prop result ''enhanced_prompt'' = Inr enhanced_prompt
           \<and> get_prop result ''changelog'' = Inr changelog
           \<and> out = JObj [(''original'', prompt), (''enhanced_prompt'', enhanced_prompt),
                         (''technique_used'', technique), (''changelog'', changelog)]"
  using assms
  by (auto simp: generate_enhancement_def final_result_def split: sum.splits prod.splits)

text \<open>
  Claim C1. A Run is running, its payload destructures, and no StepResult is stored yet
  for its last step. If the executor succeeds on the three steps in turn, then driving
  the Run leaves it succeeded, and its final result, which is also what the status
  snapshot shows, is the output of the last step: the object with \<open>original\<close> the
  prompt of the payload, \<open>technique_used\<close> the \<open>technique\<close> of the second step's
  output, and \<open>enhanced_prompt\<close> and \<open>changelog\<close> those of a parsed answer of the model
  to the third step's request.
\<close>

theorem succeeded_run_result:
  assumes "registry s rid = Some r" and "status r = Running"
    and "destructure_payload (input_payload r) = Inr (prompt, tone, targetModel)"
    and "store s (rid, ''generate-enhancement'') = None"
    and "execute pol rid ''analyze-prompt'' (analyze_prompt h prompt) s = (Inr analysis, s1)"
    and "execute pol rid ''select-strategy'' (select_strategy h analysis) s1 = (Inr strategy, s2)"
    and "execute pol rid ''generate-enhancement''
           (generate_enhancement h prompt tone targetModel analysis strategy) s2 = (Inr out, s3)"
  shows "\<exists>r' req w w' result technique enhanced_prompt changelog.
           registry (drive h pol rid s) rid = Some r'
           \<and> status r' = Succeeded \<and> run_result r' = Some out
           \<and> snap_status (instance_status r') = Succeeded
           \<and> snap_result (instance_status r') = Some out
           \<and> out = JObj [(''original'', prompt), (''enhanced_prompt'', enhanced_prompt),
                         (''technique_used'', technique), (''changelog'', changelog)]
           \<and> get_prop (input_payload r) ''prompt'' = Inr prompt
           \<and> store (drive h pol rid s) (rid, ''select-strategy'') = Some strategy
           \<and> get_prop strategy ''technique'' = Inr technique
           \<and> enhancement_request prompt tone targetModel analysis strategy = Inr req
           \<and> model_output h req w = (Inr result, w')
           \<and> get_prop result ''enhanced_prompt'' = Inr enhanced_prompt
           \<and> get_prop result ''changelog'' = Inr changelog"
proof -
  from execute_store_other[of "(rid, ''generate-enhancement'')" rid "''analyze-prompt''" pol
         "analyze_prompt h prompt" s] assms(4,5)
  have "store s1 (rid, ''generate-enhancement'') = None" by simp
  with execute_store_other[of "(rid, ''generate-enhancement'')" rid "''select-strategy''" pol
         "select_strategy h analysis" s1] assms(6)
  have fresh: "store s2 (rid, ''generate-enhancement'') = None" by simp
  from execute_success_from_work[OF assms(7) fresh] obtain w w' where
    "generate_enhancement h prompt tone targetModel analysis strategy w = (Inr out, w')"
    by blast
  from generate_enhancement_success[OF this]
  obtain req result technique enhanced_prompt changelog where
    g: "enhancement_request prompt tone targetModel analysis strategy = Inr req"
       "model_output h req w = (Inr result, w')"
       "get_prop strategy ''technique'' = Inr technique"
       "get_prop result ''enhanced_prompt'' = Inr enhanced_prompt"
       "get_prop result ''changelog'' = Inr changelog"
       "out = JObj [(''original'', prompt), (''enhanced_prompt'', enhanced_prompt),
                    (''technique_used'', technique), (''changelog'', changelog)]"
    by blast
  from run_reaches_generate[where step_do = "execute pol rid", OF assms(3,5,6)] assms(7)
  have run: "run h (execute pol rid) (input_payload r) s = (Inr out, s3)" by simp
  let ?r' = "r\<lparr>status := Succeeded, run_result := Some out,
               current_step := completed_steps (store s3) rid (run_steps r)\<rparr>"
  from drive_running[OF assms(1,2) run]
  have d: "registry (drive h pol rid s) rid = Some ?r'" "store (drive h pol rid s) = store s3"
    by simp_all
  from execute_success_stored[OF assms(6)]
  have "store s2 (rid, ''select-strategy'') = Some strategy" .
  from execute_store_keeps[OF this, of pol rid "''generate-enhancement''"
         "generate_enhancement h prompt tone targetModel analysis strategy"] assms(7)
  have st: "store s3 (rid, ''select-strategy'') = Some strategy" by simp
  have "registry (drive h pol rid s) rid = Some ?r'
           \<and> status ?r' = Succeeded \<and> run_result ?r' = Some out
           \<and> snap_status (instance_status ?r') = Succeeded
           \<and> snap_result (instance_status ?r') = Some out
           \<and> out = JObj [(''original'', prompt), (''enhanced_prompt'', enhanced_prompt),
                         (''technique_used'', technique), (''changelog'', changelog)]
           \<and> get_prop (input_payload r) ''prompt'' = Inr prompt
           \<and> store (drive h pol rid s) (rid, ''select-strategy'') = Some strategy
           \<and> get_prop strategy ''technique'' = Inr technique
           \<and> enhancement_request prompt tone targetModel analysis strategy = Inr req
           \<and> model_output h req w = (Inr result, w')
           \<and> get_prop result ''enhanced_prompt'' = Inr enhanced_prompt
           \<and> get_prop result ''changelog'' = Inr changelog"
    using d g st destructure_payload_prompt[OF assms(3)]
    by (simp add: instance_status_def)
  then show ?thesis by blast
qed

theorem succeeded_run_result_witness:
  "\<exists>r'. registry (drive (test_host scenario_answer) test_policy test_uuid submitted_engine)
           test_uuid = Some r'
        \<and> status r' = Succeeded
        \<and> run_result r' =
            Some (JObj [(''original'', JStr ''write an email''), (''enhanced_prompt'', JStr ''...''),
                        (''technique_used'', JStr ''Role-Prompting''),
                        (''changelog'', JStr ''added role and recipient context'')])
        \<and> snap_result (instance_status r') = run_result r'"
proof -
  let ?h = "test_host scenario_answer"
  let ?p = "JStr ''write an email''"
  have pay: "destructure_payload (input_payload scenario_run_rec)
               = Inr (?p, JStr ''professional'', JStr ''General LLM'')"
    by (simp add: submitted_engine_simps scenario_payload)
  have fresh: "store submitted_engine (test_uuid, ''generate-enhancement'') = None"
    by (simp add: submitted_engine_simps)
  let ?x1 = "execute test_policy test_uuid ''analyze-prompt'' (analyze_prompt ?h ?p) submitted_engine"
  let ?x2 = "execute test_policy test_uuid ''select-strategy'' (select_strategy ?h analysis_value)
               (snd ?x1)"
  let ?x3 = "execute test_policy test_uuid ''generate-enhancement''
               (generate_enhancement ?h ?p (JStr ''professional'') (JStr ''General LLM'')
                  analysis_value strategy_value) (snd ?x2)"
  have e1: "?x1 = (Inr analysis_value, snd ?x1)"
    by (simp add: execute_first_try scenario_step1 submitted_engine_simps)
  have e2: "?x2 = (Inr strategy_value, snd ?x2)"
    by (simp add: execute_first_try scenario_step1 scenario_step2 submitted_engine_simps
          log_attempt_def)
  have e3: "?x3 = (Inr scenario_result, snd ?x3)"
    by (simp add: execute_first_try scenario_step1 scenario_step2 scenario_step3
          submitted_engine_simps log_attempt_def)
  from succeeded_run_result[OF submitted_engine_simps(1,2) pay fresh e1 e2 e3]
  show ?thesis by (auto simp: scenario_result_def)
qed

section \<open>What a step consumes\<close>




section \<open>The status of a Run over time\<close>

lemma forward_refl: "forward r r"
  by (simp add: forward_def)

lemma forward_trans: "forward r r' \<Longrightarrow> forward r' r'' \<Longrightarrow> forward r r''"
  by (auto simp: forward_def split: if_splits)

lemma workflow_create_registry:
  "registry s rid = Some r \<Longrightarrow> registry (snd (workflow_create uuid params s)) rid = Some r"
  by (auto simp: workflow_create_def split: option.splits)

lemma fetch_state:
  "snd (fetch h req s) = s
   \<or> (\<exists>uuid params w'. snd (fetch h req s) = snd (workflow_create uuid params (s\<lparr>world := w'\<rparr>)))"
proof (cases "req_method req = ''POST'' \<and> req_pathname req = ''/enhance''")
  case post: True
  show ?thesis
  proof (cases "JSON_parse h (req_body req)")
    case (Inl e)
    with post show ?thesis by (simp add: fetch_def)
  next
    case (Inr params)
    show ?thesis
    proof (cases "get_prop params ''prompt''")
      case (Inl e)
      with post Inr show ?thesis by (simp add: fetch_def)
    next
      case prompt: (Inr prompt)
      show ?thesis
      proof (cases "truthy prompt")
        case False
        with post Inr prompt show ?thesis by (simp add: fetch_def)
      next
        case True
        obtain uuid w' where u: "randomUUID h (world s) = (uuid, w')"
          by (cases "randomUUID h (world s)")
        with post Inr prompt True
        have "snd (fetch h req s) = snd (workflow_create uuid params (s\<lparr>world := w'\<rparr>))"
          by (simp add: fetch_def split: prod.splits sum.splits)
        then show ?thesis by blast
      qed
    qed
  qed
next
  case False
  then show ?thesis
    by (auto simp: fetch_def workflow_get_def split: option.splits)
qed

lemma fetch_registry:
  assumes "registry s rid = Some r"
  shows "registry (snd (fetch h req s)) rid = Some r"
proof -
  from fetch_state[of h req s] show ?thesis
  proof
    assume "snd (fetch h req s) = s"
    with assms show ?thesis by simp
  next
    assume "\<exists>uuid params w'. snd (fetch h req s) = snd (workflow_create uuid params (s\<lparr>world := w'\<rparr>))"
    then obtain uuid params w' where
      "snd (fetch h req s) = snd (workflow_create uuid params (s\<lparr>world := w'\<rparr>))" by blast
    with workflow_create_registry[of "s\<lparr>world := w'\<rparr>" rid r uuid params] assms
    show ?thesis by simp
  qed
qed

lemma dispatch_forward:
  assumes "registry s rid = Some r"
  shows "\<exists>r'. registry (dispatch rid' s) rid = Some r' \<and> forward r r'"
  using assms by (auto simp: dispatch_def forward_def terminal_def split: option.splits)

lemma drive_forward:
  assumes "registry s rid = Some r"
  shows "\<exists>r'. registry (drive h pol rid' s) rid = Some r' \<and> forward r r'"
proof (cases "registry s rid'")
  case None
  with assms show ?thesis by (auto simp: drive_unknown forward_refl)
next
  case (Some q)
  show ?thesis
  proof (cases "status q = Running")
    case False
    with Some assms show ?thesis by (auto simp: drive_not_running forward_refl)
  next
    case True
    obtain res s' where run: "run h (execute pol rid') (input_payload q) s = (res, s')"
      by (cases "run h (execute pol rid') (input_payload q) s")
    show ?thesis
    proof (cases "rid' = rid")
      case False
      with assms show ?thesis
        unfolding drive_running[OF Some True run] by (simp add: forward_refl)
    next
      case same: True
      with Some assms have "q = r" by simp
      with True same show ?thesis
        unfolding drive_running[OF Some True run]
        by (cases res) (simp_all add: forward_def terminal_def)
    qed
  qed
qed

lemma engine_step_forward:
  assumes "registry s rid = Some r"
  shows "\<exists>r'. registry (engine_step h pol ev s) rid = Some r' \<and> forward r r'"
proof (cases ev)
  case (Request req)
  with fetch_registry[OF assms, of h req] show ?thesis
    by (auto simp: engine_step_def forward_refl)
next
  case (Dispatch rid')
  with dispatch_forward[OF assms, of rid'] show ?thesis by (simp add: engine_step_def)
next
  case (Drive rid')
  with drive_forward[OF assms, of h pol rid'] show ?thesis by (simp add: engine_step_def)
qed

text \<open>
  Claim C9. Whatever requests the worker serves and whatever Runs the engine dispatches
  and drives, in whatever order, a Run that is in the registry stays in it and has moved
  only forward: if it was succeeded or failed it is exactly as it was, and otherwise its
  status is not earlier than it was in the order queued, running, then succeeded or
  failed.
\<close>

theorem status_moves_forward_only:
  assumes "registry s rid = Some r"
  shows "\<exists>r'. registry (engine_steps h pol evs s) rid = Some r' \<and> forward r r'"
  using assms
proof (induction evs arbitrary: s r)
  case Nil
  then show ?case by (simp add: forward_refl)
next
  case (Cons ev evs)
  from engine_step_forward[OF Cons.prems, of h pol ev] obtain r1 where
    r1: "registry (engine_step h pol ev s) rid = Some r1" "forward r r1" by blast
  from Cons.IH[OF r1(1)] obtain r' where
    "registry (engine_steps h pol evs (engine_step h pol ev s)) rid = Some r'" "forward r1 r'"
    by blast
  with r1(2) show ?case by (auto intro: forward_trans)
qed

lemma queued_engine_registry:
  "registry queued_engine test_uuid = Some (scenario_run_rec\<lparr>status := Queued\<rparr>)"
  by (simp add: queued_engine_def engine_step_def fetch_def workflow_create_def
        scenario_run_rec_def post_enhance_def test_host_def table_parse_def parse_table_def
        payload_text_def quoted_def dquote_def payload_value_def empty_engine_def)

theorem status_moves_forward_only_witness:
  "(\<exists>r'. registry (engine_steps (test_host scenario_answer) test_policy
                   [Dispatch test_uuid, Request (get_status (Some test_uuid)), Drive test_uuid,
                    Dispatch test_uuid, Drive test_uuid, Request (post_enhance payload_text)]
                   queued_engine) test_uuid = Some r'
         \<and> forward (scenario_run_rec\<lparr>status := Queued\<rparr>) r')
   \<and> registry (engine_steps (test_host timeout_answer) test_policy
                   [Dispatch test_uuid, Drive test_uuid, Request (post_enhance payload_text)]
                   (drive (test_host scenario_answer) test_policy test_uuid submitted_engine))
         test_uuid
       = registry (drive (test_host scenario_answer) test_policy test_uuid submitted_engine)
           test_uuid"
proof
  show "\<exists>r'. registry (engine_steps (test_host scenario_answer) test_policy
                   [Dispatch test_uuid, Request (get_status (Some test_uuid)), Drive test_uuid,
                    Dispatch test_uuid, Drive test_uuid, Request (post_enhance payload_text)]
                   queued_engine) test_uuid = Some r'
         \<and> forward (scenario_run_rec\<lparr>status := Queued\<rparr>) r'"
    by (rule status_moves_forward_only[OF queued_engine_registry])
  let ?done = "drive (test_host scenario_answer) test_policy test_uuid submitted_engine"
  let ?r = "scenario_run_rec\<lparr>status := Succeeded, run_result := Some scenario_result,
              current_step := completed_steps (store completed_engine) test_uuid
                                (run_steps scenario_run_rec)\<rparr>"
  have d: "registry ?done test_uuid = Some ?r"
    using drive_running[OF submitted_engine_simps(1,2), of "test_host scenario_answer"
            test_policy "Inr scenario_result" completed_engine]
    by (simp add: submitted_engine_simps scenario_run)
  from status_moves_forward_only[OF d, of "test_host timeout_answer" test_policy
         "[Dispatch test_uuid, Drive test_uuid, Request (post_enhance payload_text)]"]
  show "registry (engine_steps (test_host timeout_answer) test_policy
                   [Dispatch test_uuid, Drive test_uuid, Request (post_enhance payload_text)]
                   ?done) test_uuid
       = registry ?done test_uuid"
    by (auto simp: d forward_def terminal_def scenario_run_rec_def)
qed

section \<open>The status query\<close>

text \<open>
  Claim C4, as stated, fails on the code for a query whose id is empty:
  \<^verbatim>\<open>GET /status?id=\<close> names no existing Run, and the answer is not the not-found
  result an unknown id gets (404, "Instance not found") but the client error of the
  guard \<^verbatim>\<open>if (!id)\<close> (400, "Missing 'id'").
\<close>

theorem empty_id_query_counterexample:
  "registry empty_engine [] = None
   \<and> fst (fetch (test_host scenario_answer) (get_status (Some [])) empty_engine)
       = Inr (Response 400 (JsonBody (JObj [(''error'', JStr (''Missing '' @ squote @ ''id'' @ squote))])))
   \<and> registry empty_engine test_uuid = None
   \<and> fst (fetch (test_host scenario_answer) (get_status (Some test_uuid)) empty_engine)
       = Inr (Response 404 (JsonBody (JObj [(''error'', JStr ''Instance not found'')])))"
  by (simp add: fetch_def get_status_def empty_engine_def workflow_get_def test_uuid_def)

text \<open>
  Claim C4, amended. For every status query, whatever the host and the engine. When
  the id is present and not empty: if it names no Run of the registry the answer is the
  not-found result (404), and otherwise it is the snapshot of that Run (200), with the
  Run's id and status in it. When the id is missing or empty, the answer is the client
  error (400, "Missing 'id'"). In every case the engine is not changed. The not-found
  result is no snapshot, so it differs from the answer for a Run that exists and is
  still queued.
\<close>

theorem status_query_result:
  assumes "req_method req = ''GET''" and "req_pathname req = ''/status''"
  shows "(req_id req = Some rid \<and> rid \<noteq> [] \<longrightarrow>
            fetch h req s =
              (Inr (case registry s rid of
                      None \<Rightarrow> Response 404 (JsonBody (JObj [(''error'', JStr ''Instance not found'')]))
                    | Some r \<Rightarrow> Response 200 (SnapshotBody (instance_status r))), s))
         \<and> (req_id req = None \<or> req_id req = Some [] \<longrightarrow>
            fetch h req s =
              (Inr (Response 400
                 (JsonBody (JObj [(''error'', JStr (''Missing '' @ squote @ ''id'' @ squote))]))), s))
         \<and> snap_status (instance_status r') = status r'
         \<and> snap_id (instance_status r') = run_id r'
         \<and> Response 404 (JsonBody (JObj [(''error'', JStr ''Instance not found'')]))
             \<noteq> Response 200 (SnapshotBody (instance_status r'))"
  using assms
  by (auto simp: fetch_def workflow_get_def instance_status_def split: option.splits)

theorem status_query_result_witness:
  "fetch (test_host scenario_answer) (get_status (Some test_uuid)) queued_engine
     = (Inr (Response 200 (SnapshotBody
          \<lparr>snap_id = test_uuid, snap_status = Queued, snap_step = None, snap_result = None,
           snap_error = None\<rparr>)), queued_engine)
   \<and> fetch (test_host scenario_answer) (get_status (Some test_uuid)) empty_engine
     = (Inr (Response 404 (JsonBody (JObj [(''error'', JStr ''Instance not found'')]))),
        empty_engine)
   \<and> fetch (test_host scenario_answer) (get_status None) queued_engine
     = (Inr (Response 400
          (JsonBody (JObj [(''error'', JStr (''Missing '' @ squote @ ''id'' @ squote))]))),
        queued_engine)
   \<and> fetch (test_host scenario_answer) (get_status (Some [])) queued_engine
     = (Inr (Response 400
          (JsonBody (JObj [(''error'', JStr (''Missing '' @ squote @ ''id'' @ squote))]))),
        queued_engine)"
proof -
  let ?h = "test_host scenario_answer"
  have q: "\<And>i. req_method (get_status i) = ''GET''"
    "\<And>i. req_pathname (get_status i) = ''/status''"
    by (simp_all add: get_status_def)
  have i: "\<And>i. req_id (get_status i) = i" by (simp add: get_status_def)
  have u: "test_uuid \<noteq> []" by (simp add: test_uuid_def)
  have w1: "fetch ?h (get_status (Some test_uuid)) queued_engine
     = (Inr (Response 200 (SnapshotBody
          \<lparr>snap_id = test_uuid, snap_status = Queued, snap_step = None, snap_result = None,
           snap_error = None\<rparr>)), queued_engine)"
    using status_query_result[OF q(1)[of "Some test_uuid"] q(2)[of "Some test_uuid"],
            where rid = test_uuid and h = ?h and s = queued_engine, THEN conjunct1] u
    by (simp add: i queued_engine_registry instance_status_def scenario_run_rec_def)
  have w2: "fetch ?h (get_status (Some test_uuid)) empty_engine
     = (Inr (Response 404 (JsonBody (JObj [(''error'', JStr ''Instance not found'')]))),
        empty_engine)"
    using status_query_result[OF q(1)[of "Some test_uuid"] q(2)[of "Some test_uuid"],
            where rid = test_uuid and h = ?h and s = empty_engine, THEN conjunct1] u
    by (simp add: i empty_engine_def)
  have w3: "fetch ?h (get_status None) queued_engine
     = (Inr (Response 400
          (JsonBody (JObj [(''error'', JStr (''Missing '' @ squote @ ''id'' @ squote))]))),
        queued_engine)"
    using status_query_result[OF q(1)[of None] q(2)[of None],
            where h = ?h and s = queued_engine, THEN conjunct2, THEN conjunct1]
    by (simp add: i)
  have w4: "fetch ?h (get_status (Some [])) queued_engine
     = (Inr (Response 400
          (JsonBody (JObj [(''error'', JStr (''Missing '' @ squote @ ''id'' @ squote))]))),
        queued_engine)"
    using status_query_result[OF q(1)[of "Some []"] q(2)[of "Some []"],
            where h = ?h and s = queued_engine, THEN conjunct2, THEN conjunct1]
    by (simp add: i)
  from w1 w2 w3 w4 show ?thesis by blast
qed

section \<open>Answers of the model that do not parse, or do not match the schema\<close>

text \<open>
  Claim C7, as stated, fails on the code for an answer that parses and does not match
  the declared schema. The model answers the first step with \<^verbatim>\<open>{}\<close>, which lacks
  the four required properties: the step succeeds at the first attempt, nothing is
  retried, and \<^verbatim>\<open>{}\<close> is stored as the step's result.
\<close>

theorem schema_violation_accepted_counterexample:
  "\<not> conforms analysis_schema (JObj [])
   \<and> execute test_policy test_uuid ''analyze-prompt''
        (analyze_prompt (test_host empty_object_answer) (JStr ''write an email''))
        submitted_engine
      = (Inr (JObj []),
         submitted_engine
           \<lparr>world := 1,
            attempts := [\<lparr>attempt_run = test_uuid, attempt_step = ''analyze-prompt'',
                          attempt_number = 1, attempt_outcome = Inr (JObj [])\<rparr>],
            store := (\<lambda>k. None)((test_uuid, ''analyze-prompt'') \<mapsto> JObj [])\<rparr>)"
proof
  show "\<not> conforms analysis_schema (JObj [])"
    by (simp add: analysis_schema_def)
  have "analyze_prompt (test_host empty_object_answer) (JStr ''write an email'') 0
          = (Inr (JObj []), 1)"
    by (simp add: analyze_prompt_def analyze_request_def model_output_def empty_object_answer_def
          test_host_def table_parse_def parse_table_def)
  then show "execute test_policy test_uuid ''analyze-prompt''
        (analyze_prompt (test_host empty_object_answer) (JStr ''write an email''))
        submitted_engine
      = (Inr (JObj []),
         submitted_engine
           \<lparr>world := 1,
            attempts := [\<lparr>attempt_run = test_uuid, attempt_step = ''analyze-prompt'',
                          attempt_number = 1, attempt_outcome = Inr (JObj [])\<rparr>],
            store := (\<lambda>k. None)((test_uuid, ''analyze-prompt'') \<mapsto> JObj [])\<rparr>)"
    by (simp add: execute_first_try submitted_engine_simps log_attempt_def)
qed

lemma enhancement_request_technique:
  "enhancement_request prompt tone targetModel analysis strategy = Inr req \<Longrightarrow>
     \<exists>technique. get_prop strategy ''technique'' = Inr technique"
  by (auto simp: enhancement_request_def split: sum.splits)

text \<open>
  Claim C7, amended. The model has answered the request of a step with a payload that
  can be printed and handed to \<^verbatim>\<open>JSON.parse\<close>. If the payload fails to parse, the
  exception of \<^verbatim>\<open>JSON.parse\<close> is the failure of the step's work, for each of the
  three steps, and it is not marked non-retryable. A failure of the work that is not
  marked non-retryable is retried by the executor below the attempt cap (it logs the
  failed attempt, sleeps the backoff delay and tries again), and at the cap it ends the
  step with a failure that names the step. If the payload parses, nothing checks the
  parsed value against the step's declared schema: in the first and in the second step
  the parsed value is the step's output as it is; in the third step the output is built
  from the \<^verbatim>\<open>enhanced_prompt\<close> and the \<^verbatim>\<open>changelog\<close> read from the parsed value,
  whatever they are, and only a parsed \<^verbatim>\<open>null\<close>, whose properties cannot be read,
  makes the work fail, with a TypeError that is not marked non-retryable either.
\<close>

theorem parse_failure_is_step_failure:
  assumes "AI_run h modelId req w = (Inr response, w')"
    and "get_prop response ''response'' = Inr text"
    and "to_string text = Inr t"
  shows
    "(JSON_parse h t = Inl SyntaxError \<longrightarrow>
        model_output h req w = (Inl SyntaxError, w') \<and> \<not> non_retryable SyntaxError)
     \<and> (analyze_request prompt = Inr req \<and> JSON_parse h t = Inl SyntaxError \<longrightarrow>
        analyze_prompt h prompt w = (Inl SyntaxError, w'))
     \<and> (strategy_request h analysis = Inr req \<and> JSON_parse h t = Inl SyntaxError \<longrightarrow>
        select_strategy h analysis w = (Inl SyntaxError, w'))
     \<and> (enhancement_request prompt tone targetModel analysis strategy = Inr req
        \<and> JSON_parse h t = Inl SyntaxError \<longrightarrow>
        generate_enhancement h prompt tone targetModel analysis strategy w = (Inl SyntaxError, w'))
     \<and> (work (world s) = (Inl e, w1) \<and> \<not> non_retryable e \<and> n < max_attempts pol \<longrightarrow>
        attempt_loop pol rid name work n s =
          attempt_loop pol rid name work (Suc n)
            ((log_attempt rid name n (Inl e) w1 s)
               \<lparr>delays := delays s @ [base_delay pol * 2 ^ (n - 1)]\<rparr>))
     \<and> (work (world s) = (Inl e, w1) \<and> max_attempts pol \<le> n \<longrightarrow>
        attempt_loop pol rid name work n s =
          (Inl (StepFailure name e), log_attempt rid name n (Inl e) w1 s))
     \<and> (JSON_parse h t = Inr v \<longrightarrow> model_output h req w = (Inr v, w'))
     \<and> (analyze_request prompt = Inr req \<and> JSON_parse h t = Inr v \<longrightarrow>
        analyze_prompt h prompt w = (Inr v, w'))
     \<and> (strategy_request h analysis = Inr req \<and> JSON_parse h t = Inr v \<longrightarrow>
        select_strategy h analysis w = (Inr v, w'))
     \<and> (enhancement_request prompt tone targetModel analysis strategy = Inr req
        \<and> JSON_parse h t = Inr v \<and> get_prop v ''enhanced_prompt'' = Inr enhanced_prompt
        \<and> get_prop v ''changelog'' = Inr changelog \<longrightarrow>
        (\<exists>technique. get_prop strategy ''technique'' = Inr technique
           \<and> generate_enhancement h prompt tone targetModel analysis strategy w =
               (Inr (JObj [(''original'', prompt), (''enhanced_prompt'', enhanced_prompt),
                           (''technique_used'', technique), (''changelog'', changelog)]), w')))
     \<and> (enhancement_request prompt tone targetModel analysis strategy = Inr req
        \<and> JSON_parse h t = Inr JNull \<longrightarrow>
        generate_enhancement h prompt tone targetModel analysis strategy w = (Inl TypeError, w')
        \<and> \<not> non_retryable TypeError)"
proof (intro conjI impI)
  assume "JSON_parse h t = Inl SyntaxError"
  with assms show "model_output h req w = (Inl SyntaxError, w')"
    by (simp add: model_output_def)
  show "\<not> non_retryable SyntaxError" by simp
next
  assume "analyze_request prompt = Inr req \<and> JSON_parse h t = Inl SyntaxError"
  with assms show "analyze_prompt h prompt w = (Inl SyntaxError, w')"
    by (simp add: analyze_prompt_def model_output_def)
next
  assume "strategy_request h analysis = Inr req \<and> JSON_parse h t = Inl SyntaxError"
  with assms show "select_strategy h analysis w = (Inl SyntaxError, w')"
    by (simp add: select_strategy_def model_output_def)
next
  assume "enhancement_request prompt tone targetModel analysis strategy = Inr req
        \<and> JSON_parse h t = Inl SyntaxError"
  with assms
  show "generate_enhancement h prompt tone targetModel analysis strategy w = (Inl SyntaxError, w')"
    by (simp add: generate_enhancement_def model_output_def)
next
  assume "work (world s) = (Inl e, w1) \<and> \<not> non_retryable e \<and> n < max_attempts pol"
  then show "attempt_loop pol rid name work n s =
          attempt_loop pol rid name work (Suc n)
            ((log_attempt rid name n (Inl e) w1 s)
               \<lparr>delays := delays s @ [base_delay pol * 2 ^ (n - 1)]\<rparr>)"
    by (simp add: attempt_loop_retry)
next
  assume "work (world s) = (Inl e, w1) \<and> max_attempts pol \<le> n"
  then show "attempt_loop pol rid name work n s =
          (Inl (StepFailure name e), log_attempt rid name n (Inl e) w1 s)"
    by (simp add: attempt_loop_give_up)
next
  assume "JSON_parse h t = Inr v"
  with assms show "model_output h req w = (Inr v, w')"
    by (simp add: model_output_def)
next
  assume "analyze_request prompt = Inr req \<and> JSON_parse h t = Inr v"
  with assms show "analyze_prompt h prompt w = (Inr v, w')"
    by (simp add: analyze_prompt_def model_output_def)
next
  assume "strategy_request h analysis = Inr req \<and> JSON_parse h t = Inr v"
  with assms show "select_strategy h analysis w = (Inr v, w')"
    by (simp add: select_strategy_def model_output_def)
next
  assume a: "enhancement_request prompt tone targetModel analysis strategy = Inr req
        \<and> JSON_parse h t = Inr v \<and> get_prop v ''enhanced_prompt'' = Inr enhanced_prompt
        \<and> get_prop v ''changelog'' = Inr changelog"
  then obtain technique where tq: "get_prop strategy ''technique'' = Inr technique"
    using enhancement_request_technique by blast
  from a assms tq
  have "generate_enhancement h prompt tone targetModel analysis strategy w =
               (Inr (JObj [(''original'', prompt), (''enhanced_prompt'', enhanced_prompt),
                           (''technique_used'', technique), (''changelog'', changelog)]), w')"
    by (simp add: generate_enhancement_def model_output_def final_result_def)
  with tq show "\<exists>technique. get_prop strategy ''technique'' = Inr technique
           \<and> generate_enhancement h prompt tone targetModel analysis strategy w =
               (Inr (JObj [(''original'', prompt), (''enhanced_prompt'', enhanced_prompt),
                           (''technique_used'', technique), (''changelog'', changelog)]), w')"
    by blast
next
  assume "enhancement_request prompt tone targetModel analysis strategy = Inr req
        \<and> JSON_parse h t = Inr JNull"
  with assms
  show "generate_enhancement h prompt tone targetModel analysis strategy w = (Inl TypeError, w')"
    by (simp add: generate_enhancement_def model_output_def final_result_def)
  show "\<not> non_retryable TypeError" by simp
qed


theorem parse_failure_is_step_failure_witness:
  "analyze_prompt (test_host garbage_answer) (JStr ''write an email'') 0 = (Inl SyntaxError, 1)
   \<and> select_strategy (test_host garbage_answer) analysis_value 0 = (Inl SyntaxError, 1)
   \<and> generate_enhancement (test_host garbage_answer) (JStr ''write an email'')
        (JStr ''professional'') (JStr ''General LLM'') analysis_value strategy_value 0
     = (Inl SyntaxError, 1)
   \<and> attempt_loop test_policy test_uuid ''analyze-prompt''
        (analyze_prompt (test_host garbage_answer) (JStr ''write an email'')) 1 submitted_engine
     = attempt_loop test_policy test_uuid ''analyze-prompt''
        (analyze_prompt (test_host garbage_answer) (JStr ''write an email'')) 2
        ((log_attempt test_uuid ''analyze-prompt'' 1 (Inl SyntaxError) 1 submitted_engine)
           \<lparr>delays := [10]\<rparr>)
   \<and> attempt_loop test_policy test_uuid ''analyze-prompt''
        (analyze_prompt (test_host garbage_answer) (JStr ''write an email'')) 3 submitted_engine
     = (Inl (StepFailure ''analyze-prompt'' SyntaxError),
        log_attempt test_uuid ''analyze-prompt'' 3 (Inl SyntaxError) 1 submitted_engine)
   \<and> analyze_prompt (test_host empty_object_answer) (JStr ''write an email'') 0
     = (Inr (JObj []), 1)
   \<and> select_strategy (test_host empty_object_answer) analysis_value 0 = (Inr (JObj []), 1)
   \<and> generate_enhancement (test_host empty_object_answer) (JStr ''write an email'')
        (JStr ''professional'') (JStr ''General LLM'') analysis_value strategy_value 0
     = (Inr (JObj [(''original'', JStr ''write an email''), (''enhanced_prompt'', JUndefined),
                   (''technique_used'', JStr ''Role-Prompting''), (''changelog'', JUndefined)]), 1)
   \<and> generate_enhancement (test_host null_answer) (JStr ''write an email'')
        (JStr ''professional'') (JStr ''General LLM'') analysis_value strategy_value 0
     = (Inl TypeError, 1)"
proof -
  let ?g = "test_host garbage_answer"
  let ?o = "test_host empty_object_answer"
  let ?n = "test_host null_answer"
  let ?p = "JStr ''write an email''"
  obtain req1 where req1: "analyze_request ?p = Inr req1"
    by (simp add: analyze_request_def)
  obtain req2 where req2: "\<And>a. strategy_request (test_host a) analysis_value = Inr req2"
    by (simp add: strategy_request_def test_host_def table_stringify_def scenario_defs)
  obtain req3 where req3: "enhancement_request ?p (JStr ''professional'') (JStr ''General LLM'')
                             analysis_value strategy_value = Inr req3"
    by (simp add: enhancement_request_def analysis_value_def strategy_value_def)
  have technique: "get_prop strategy_value ''technique'' = Inr (JStr ''Role-Prompting'')"
    by (simp add: strategy_value_def)
  have ai_g: "\<And>req. AI_run ?g modelId req 0 = (Inr (JObj [(''response'', JStr ''not json'')]), 1)"
    by (simp add: test_host_def garbage_answer_def)
  have ai_o: "\<And>req. AI_run ?o modelId req 0 = (Inr (JObj [(''response'', JStr ''{}'')]), 1)"
    by (simp add: test_host_def empty_object_answer_def)
  have ai_n: "\<And>req. AI_run ?n modelId req 0 = (Inr (JObj [(''response'', JStr ''null'')]), 1)"
    by (simp add: test_host_def null_answer_def)
  have resp: "\<And>x. get_prop (JObj [(''response'', JStr x)]) ''response'' = Inr (JStr x)"
    by simp
  have ts: "\<And>x. to_string (JStr x) = Inr x" by simp
  have bad: "JSON_parse ?g ''not json'' = Inl SyntaxError"
    by (simp add: test_host_def table_parse_def scenario_defs)
  have empty: "JSON_parse ?o ''{}'' = Inr (JObj [])"
    by (simp add: test_host_def table_parse_def parse_table_def)
  have null: "JSON_parse ?n ''null'' = Inr JNull"
    by (simp add: test_host_def table_parse_def parse_table_def)
  have w1: "analyze_prompt ?g ?p 0 = (Inl SyntaxError, 1)"
    using parse_failure_is_step_failure[OF ai_g[of req1] resp ts, where prompt = ?p, THEN conjunct2, THEN conjunct1] req1 bad
    by simp
  have w2: "select_strategy ?g analysis_value 0 = (Inl SyntaxError, 1)"
    using parse_failure_is_step_failure[OF ai_g[of req2] resp ts, where analysis = analysis_value,
            THEN conjunct2, THEN conjunct2, THEN conjunct1] req2 bad
    by simp
  have w3: "generate_enhancement ?g ?p (JStr ''professional'') (JStr ''General LLM'')
              analysis_value strategy_value 0 = (Inl SyntaxError, 1)"
    using parse_failure_is_step_failure[OF ai_g[of req3] resp ts, where prompt = ?p
            and tone = "JStr ''professional''" and targetModel = "JStr ''General LLM''"
            and analysis = analysis_value and strategy = strategy_value, THEN conjunct2, THEN conjunct2, THEN conjunct2, THEN conjunct1] req3 bad
    by simp
  have work: "analyze_prompt ?g ?p (world submitted_engine) = (Inl SyntaxError, 1)"
    using w1 by (simp add: submitted_engine_simps)
  have w4: "attempt_loop test_policy test_uuid ''analyze-prompt'' (analyze_prompt ?g ?p) 1
              submitted_engine
     = attempt_loop test_policy test_uuid ''analyze-prompt'' (analyze_prompt ?g ?p) 2
        ((log_attempt test_uuid ''analyze-prompt'' 1 (Inl SyntaxError) 1 submitted_engine)
           \<lparr>delays := [10]\<rparr>)"
    using parse_failure_is_step_failure[OF ai_g[of req1] resp ts,
            where work = "analyze_prompt ?g ?p" and s = submitted_engine and ?w1.0 = 1
            and e = SyntaxError
            and n = 1 and pol = test_policy and rid = test_uuid and name = "''analyze-prompt''",
            THEN conjunct2, THEN conjunct2, THEN conjunct2, THEN conjunct2, THEN conjunct1] work
    by (simp add: test_policy_def submitted_engine_eq empty_engine_def numeral_2_eq_2)
  have w5: "attempt_loop test_policy test_uuid ''analyze-prompt'' (analyze_prompt ?g ?p) 3
              submitted_engine
     = (Inl (StepFailure ''analyze-prompt'' SyntaxError),
        log_attempt test_uuid ''analyze-prompt'' 3 (Inl SyntaxError) 1 submitted_engine)"
    using parse_failure_is_step_failure[OF ai_g[of req1] resp ts,
            where work = "analyze_prompt ?g ?p" and s = submitted_engine and ?w1.0 = 1
            and e = SyntaxError
            and n = 3 and pol = test_policy and rid = test_uuid and name = "''analyze-prompt''",
            THEN conjunct2, THEN conjunct2, THEN conjunct2, THEN conjunct2, THEN conjunct2, THEN conjunct1] work
    by (simp add: test_policy_def)
  have w6: "analyze_prompt ?o ?p 0 = (Inr (JObj []), 1)"
    using parse_failure_is_step_failure[OF ai_o[of req1] resp ts, where prompt = ?p
            and v = "JObj []", THEN conjunct2, THEN conjunct2, THEN conjunct2, THEN conjunct2, THEN conjunct2, THEN conjunct2, THEN conjunct2, THEN conjunct1] req1 empty
    by simp
  have w7: "select_strategy ?o analysis_value 0 = (Inr (JObj []), 1)"
    using parse_failure_is_step_failure[OF ai_o[of req2] resp ts, where analysis = analysis_value
            and v = "JObj []", THEN conjunct2, THEN conjunct2, THEN conjunct2, THEN conjunct2, THEN conjunct2, THEN conjunct2, THEN conjunct2, THEN conjunct2, THEN conjunct1] req2 empty
    by simp
  have w8: "generate_enhancement ?o ?p (JStr ''professional'') (JStr ''General LLM'')
              analysis_value strategy_value 0
     = (Inr (JObj [(''original'', JStr ''write an email''), (''enhanced_prompt'', JUndefined),
                   (''technique_used'', JStr ''Role-Prompting''), (''changelog'', JUndefined)]), 1)"
    using parse_failure_is_step_failure[OF ai_o[of req3] resp ts, where prompt = ?p
            and tone = "JStr ''professional''" and targetModel = "JStr ''General LLM''"
            and analysis = analysis_value and strategy = strategy_value and v = "JObj []"
            and enhanced_prompt = JUndefined and changelog = JUndefined, THEN conjunct2, THEN conjunct2, THEN conjunct2, THEN conjunct2, THEN conjunct2, THEN conjunct2, THEN conjunct2, THEN conjunct2, THEN conjunct2, THEN conjunct1] req3 empty technique
    by simp
  have w9: "generate_enhancement ?n ?p (JStr ''professional'') (JStr ''General LLM'')
              analysis_value strategy_value 0 = (Inl TypeError, 1)"
    using parse_failure_is_step_failure[OF ai_n[of req3] resp ts, where prompt = ?p
            and tone = "JStr ''professional''" and targetModel = "JStr ''General LLM''"
            and analysis = analysis_value and strategy = strategy_value, THEN conjunct2, THEN conjunct2, THEN conjunct2, THEN conjunct2, THEN conjunct2, THEN conjunct2, THEN conjunct2, THEN conjunct2, THEN conjunct2, THEN conjunct2] req3 null
    by simp
  from w1 w2 w3 w4 w5 w6 w7 w8 w9 show ?thesis by blast
qed

section \<open>A submission without a prompt\<close>

text \<open>
  Claim C3. What the handler does with a submission that has no prompt. When the
  payload is a value other than \<^verbatim>\<open>null\<close> whose \<^verbatim>\<open>prompt\<close> is missing or falsy,
  the answer is the client error (400, "Missing 'prompt' in body"). When the payload is
  \<^verbatim>\<open>null\<close>, reading \<^verbatim>\<open>payload.prompt\<close> throws a TypeError, and when the body
  does not parse, \<^verbatim>\<open>req.json()\<close> throws; nothing catches either, so the request
  ends in an internal failure of the worker and not in a client error. In all three
  cases the engine is left as it was: no Run is created.
\<close>

theorem submission_without_prompt:
  assumes "req_method req = ''POST''" and "req_pathname req = ''/enhance''"
  shows
    "(JSON_parse h (req_body req) = Inr payload \<and> get_prop payload ''prompt'' = Inr prompt
        \<and> \<not> truthy prompt \<longrightarrow>
        fetch h req s =
          (Inr (Response 400
             (JsonBody (JObj [(''error'',
                JStr (''Missing '' @ squote @ ''prompt'' @ squote @ '' in body''))]))), s))
     \<and> (JSON_parse h (req_body req) = Inr JNull \<longrightarrow> fetch h req s = (Inl TypeError, s))
     \<and> (JSON_parse h (req_body req) = Inl e \<longrightarrow> fetch h req s = (Inl e, s))"
  using assms by (simp add: fetch_def)

theorem submission_without_prompt_witness:
  "fetch (test_host scenario_answer) (post_enhance ''{}'') empty_engine
     = (Inr (Response 400
          (JsonBody (JObj [(''error'',
             JStr (''Missing '' @ squote @ ''prompt'' @ squote @ '' in body''))]))), empty_engine)
   \<and> fetch (test_host scenario_answer) (post_enhance ''null'') empty_engine
     = (Inl TypeError, empty_engine)
   \<and> fetch (test_host scenario_answer) (post_enhance []) empty_engine
     = (Inl SyntaxError, empty_engine)"
proof -
  let ?h = "test_host scenario_answer"
  have post: "\<And>b. req_method (post_enhance b) = ''POST''"
    "\<And>b. req_pathname (post_enhance b) = ''/enhance''"
    by (simp_all add: post_enhance_def)
  have p1: "JSON_parse ?h (req_body (post_enhance ''{}'')) = Inr (JObj [])"
    by (simp add: test_host_def post_enhance_def table_parse_def parse_table_def)
  have p2: "JSON_parse ?h (req_body (post_enhance ''null'')) = Inr JNull"
    by (simp add: test_host_def post_enhance_def table_parse_def parse_table_def)
  have p3: "JSON_parse ?h (req_body (post_enhance [])) = Inl SyntaxError"
    by (simp add: test_host_def post_enhance_def table_parse_def scenario_defs)
  have w1: "fetch ?h (post_enhance ''{}'') empty_engine
     = (Inr (Response 400
          (JsonBody (JObj [(''error'',
             JStr (''Missing '' @ squote @ ''prompt'' @ squote @ '' in body''))]))), empty_engine)"
    using submission_without_prompt[OF post(1)[of "''{}''"] post(2)[of "''{}''"], where h = ?h
            and payload = "JObj []" and prompt = JUndefined and s = empty_engine,
            THEN conjunct1] p1
    by simp
  have w2: "fetch ?h (post_enhance ''null'') empty_engine = (Inl TypeError, empty_engine)"
    using submission_without_prompt[OF post(1)[of "''null''"] post(2)[of "''null''"], where h = ?h
            and s = empty_engine, THEN conjunct2, THEN conjunct1] p2
    by simp
  have w3: "fetch ?h (post_enhance []) empty_engine = (Inl SyntaxError, empty_engine)"
    using submission_without_prompt[OF post(1)[of "[]"] post(2)[of "[]"], where h = ?h
            and e = SyntaxError and s = empty_engine, THEN conjunct2, THEN conjunct2] p3
    by simp
  from w1 w2 w3 show ?thesis by blast
qed

section \<open>Defaults of the payload\<close>

lemma run_same_destructure:
  "destructure_payload p = destructure_payload p' \<Longrightarrow> run h step_do p s = run h step_do p' s"
  by (simp add: run_def)

lemma destructure_payload_reads:
  assumes "get_prop p ''prompt'' = Inr prompt" and "get_prop p ''tone'' = Inr tone"
    and "get_prop p ''targetModel'' = Inr targetModel"
  shows "destructure_payload p =
           Inr (prompt,
                if tone = JUndefined then JStr ''professional'' else tone,
                if targetModel = JUndefined then JStr ''General LLM'' else targetModel)"
  using assms by (simp add: destructure_payload_def)

lemma get_prop_total:
  "v \<noteq> JNull \<Longrightarrow> v \<noteq> JUndefined \<Longrightarrow> \<exists>x. get_prop v k = Inr x"
  by (cases v) (auto split: option.splits)

lemma run_before_generation:
  assumes "get_prop p' ''prompt'' = get_prop p ''prompt''"
    and "p \<noteq> JNull" "p' \<noteq> JNull" "p \<noteq> JUndefined" "p' \<noteq> JUndefined"
    and g: "\<And>work work' t. step_do ''generate-enhancement'' work t
                             = step_do ''generate-enhancement'' work' t"
  shows "run h step_do p s = run h step_do p' s"
proof -
  from get_prop_total[OF assms(2,4)] obtain pr where pr: "get_prop p ''prompt'' = Inr pr" by blast
  from get_prop_total[OF assms(2,4)] obtain t1 where t1: "get_prop p ''tone'' = Inr t1" by blast
  from get_prop_total[OF assms(2,4)] obtain m1 where m1: "get_prop p ''targetModel'' = Inr m1" by blast
  from get_prop_total[OF assms(3,5)] obtain t2 where t2: "get_prop p' ''tone'' = Inr t2" by blast
  from get_prop_total[OF assms(3,5)] obtain m2 where m2: "get_prop p' ''targetModel'' = Inr m2" by blast
  from assms(1) pr have pr': "get_prop p' ''prompt'' = Inr pr" by simp
  show ?thesis
    unfolding run_def destructure_payload_reads[OF pr t1 m1] destructure_payload_reads[OF pr' t2 m2]
    by (auto split: prod.splits sum.splits intro: g)
qed

text \<open>
  Claim C10. The run reads the prompt, the tone and the target model of its payload,
  and hands the generation step the work built with tone "professional" where the
  payload has no tone and with target model "General LLM" where it has no target model.
  So a payload that omits \<^verbatim>\<open>tone\<close> runs exactly as the same payload with tone
  "professional", and a payload that omits \<^verbatim>\<open>targetModel\<close> exactly as the same
  payload with targetModel "General LLM", whatever \<^verbatim>\<open>step.do\<close> the run is given.
  The request the generation step sends to the model is the one whose system message
  prints that target model after "Target Model: " and that tone after "Tone: ". Tone and
  target model reach the generation step only: two payloads with the same prompt run
  alike under every \<^verbatim>\<open>step.do\<close> that disregards the work of the generation step.
  And whatever they are, an output of the generation step is an object with the four
  properties original, enhanced_prompt, technique_used and changelog.
\<close>

theorem defaults_only_in_generation:
  "(get_prop p ''tone'' = Inr JUndefined \<and> get_prop p' ''tone'' = Inr (JStr ''professional'')
      \<and> get_prop p' ''prompt'' = get_prop p ''prompt''
      \<and> get_prop p' ''targetModel'' = get_prop p ''targetModel''
      \<longrightarrow> run h step_do p s = run h step_do p' s)
   \<and> (get_prop p ''targetModel'' = Inr JUndefined
      \<and> get_prop p' ''targetModel'' = Inr (JStr ''General LLM'')
      \<and> get_prop p' ''prompt'' = get_prop p ''prompt''
      \<and> get_prop p' ''tone'' = get_prop p ''tone''
      \<longrightarrow> run h step_do p s = run h step_do p' s)
   \<and> (get_prop p' ''prompt'' = get_prop p ''prompt'' \<and> p \<noteq> JNull \<and> p' \<noteq> JNull
      \<and> p \<noteq> JUndefined \<and> p' \<noteq> JUndefined
      \<and> (\<forall>work work' t. step_do ''generate-enhancement'' work t
                           = step_do ''generate-enhancement'' work' t)
      \<longrightarrow> run h step_do p s = run h step_do p' s)
   \<and> (generate_enhancement h prompt tone targetModel analysis strategy w = (Inr v, w')
      \<longrightarrow> (\<exists>ep t cl. v = JObj [(''original'', prompt), (''enhanced_prompt'', ep),
                                 (''technique_used'', t), (''changelog'', cl)]))
   \<and> (get_prop p ''prompt'' = Inr prompt \<and> get_prop p ''tone'' = Inr tone
      \<and> get_prop p ''targetModel'' = Inr targetModel
      \<longrightarrow> run h step_do p s =
          (case step_do ''analyze-prompt'' (analyze_prompt h prompt) s of
             (Inl f, s1) \<Rightarrow> (Inl f, s1)
           | (Inr analysis, s1) \<Rightarrow>
               (case step_do ''select-strategy'' (select_strategy h analysis) s1 of
                  (Inl f, s2) \<Rightarrow> (Inl f, s2)
                | (Inr strategy, s2) \<Rightarrow>
                    step_do ''generate-enhancement''
                      (generate_enhancement h prompt
                         (if tone = JUndefined then JStr ''professional'' else tone)
                         (if targetModel = JUndefined then JStr ''General LLM'' else targetModel)
                         analysis strategy) s2)))
   \<and> (enhancement_request prompt tone targetModel analysis strategy = Inr req
      \<longrightarrow> generate_enhancement h prompt tone targetModel analysis strategy w =
            (case model_output h req w of
               (Inl e, w') \<Rightarrow> (Inl e, w')
             | (Inr result, w') \<Rightarrow> (final_result prompt strategy result, w'))
          \<and> (\<exists>tone_text model_text before between after user_text.
                to_string tone = Inr tone_text \<and> to_string targetModel = Inr model_text
                \<and> messages req =
                    [(''system'', before @ ''Target Model: '' @ model_text @ ''.'' @ between
                                   @ ''Tone: '' @ tone_text @ ''.'' @ after),
                     (''user'', user_text)]))"
proof (intro conjI impI)
  assume "get_prop p ''tone'' = Inr JUndefined \<and> get_prop p' ''tone'' = Inr (JStr ''professional'')
      \<and> get_prop p' ''prompt'' = get_prop p ''prompt''
      \<and> get_prop p' ''targetModel'' = get_prop p ''targetModel''"
  then have "destructure_payload p = destructure_payload p'"
    by (simp add: destructure_payload_def split: sum.splits)
  then show "run h step_do p s = run h step_do p' s" by (rule run_same_destructure)
next
  assume "get_prop p ''targetModel'' = Inr JUndefined
      \<and> get_prop p' ''targetModel'' = Inr (JStr ''General LLM'')
      \<and> get_prop p' ''prompt'' = get_prop p ''prompt''
      \<and> get_prop p' ''tone'' = get_prop p ''tone''"
  then have "destructure_payload p = destructure_payload p'"
    by (simp add: destructure_payload_def split: sum.splits)
  then show "run h step_do p s = run h step_do p' s" by (rule run_same_destructure)
next
  assume "get_prop p' ''prompt'' = get_prop p ''prompt'' \<and> p \<noteq> JNull \<and> p' \<noteq> JNull
      \<and> p \<noteq> JUndefined \<and> p' \<noteq> JUndefined
      \<and> (\<forall>work work' t. step_do ''generate-enhancement'' work t
                           = step_do ''generate-enhancement'' work' t)"
  then show "run h step_do p s = run h step_do p' s"
    by (intro run_before_generation) simp_all
next
  assume "generate_enhancement h prompt tone targetModel analysis strategy w = (Inr v, w')"
  from generate_enhancement_shape[OF this]
  show "\<exists>ep t cl. v = JObj [(''original'', prompt), (''enhanced_prompt'', ep),
                                 (''technique_used'', t), (''changelog'', cl)]"
    by blast
next
  assume "get_prop p ''prompt'' = Inr prompt \<and> get_prop p ''tone'' = Inr tone
      \<and> get_prop p ''targetModel'' = Inr targetModel"
  then show "run h step_do p s =
          (case step_do ''analyze-prompt'' (analyze_prompt h prompt) s of
             (Inl f, s1) \<Rightarrow> (Inl f, s1)
           | (Inr analysis, s1) \<Rightarrow>
               (case step_do ''select-strategy'' (select_strategy h analysis) s1 of
                  (Inl f, s2) \<Rightarrow> (Inl f, s2)
                | (Inr strategy, s2) \<Rightarrow>
                    step_do ''generate-enhancement''
                      (generate_enhancement h prompt
                         (if tone = JUndefined then JStr ''professional'' else tone)
                         (if targetModel = JUndefined then JStr ''General LLM'' else targetModel)
                         analysis strategy) s2))"
    by (simp add: run_def destructure_payload_def)
next
  assume r: "enhancement_request prompt tone targetModel analysis strategy = Inr req"
  show "generate_enhancement h prompt tone targetModel analysis strategy w =
            (case model_output h req w of
               (Inl e, w') \<Rightarrow> (Inl e, w')
             | (Inr result, w') \<Rightarrow> (final_result prompt strategy result, w'))"
    using r by (simp add: generate_enhancement_def)
  from r obtain t1 t2 t3 t4 j pt where
    t: "to_string targetModel = Inr t3" "to_string tone = Inr t4"
    and req: "req = \<lparr>messages =
                 [(''system'',
                   ''You are an expert Prompt Engineer. Rewrite the original prompt using the ''
                   @ t1 @ '' technique.'' @ newline @ indent
                   @ ''Role: '' @ t2 @ ''.'' @ newline @ indent
                   @ ''Target Model: '' @ t3 @ ''.'' @ newline @ indent
                   @ ''Tone: '' @ t4 @ ''.'' @ newline @ indent
                   @ ''Address these weaknesses: '' @ j @ ''.'' @ newline @ indent
                   @ ''Output valid JSON only.''),
                  (''user'', ''Original Prompt: '' @ dquote @ pt @ dquote)],
                response_format = enhancement_schema\<rparr>"
    by (auto simp: enhancement_request_def split: sum.splits)
  let ?before = "''You are an expert Prompt Engineer. Rewrite the original prompt using the ''
                   @ t1 @ '' technique.'' @ newline @ indent
                   @ ''Role: '' @ t2 @ ''.'' @ newline @ indent"
  let ?between = "newline @ indent"
  let ?after = "newline @ indent @ ''Address these weaknesses: '' @ j @ ''.'' @ newline @ indent
                   @ ''Output valid JSON only.''"
  have "to_string tone = Inr t4 \<and> to_string targetModel = Inr t3
           \<and> messages req =
               [(''system'', ?before @ ''Target Model: '' @ t3 @ ''.'' @ ?between
                              @ ''Tone: '' @ t4 @ ''.'' @ ?after),
                (''user'', ''Original Prompt: '' @ dquote @ pt @ dquote)]"
    using t by (simp add: req)
  then show "\<exists>tone_text model_text before between after user_text.
                to_string tone = Inr tone_text \<and> to_string targetModel = Inr model_text
                \<and> messages req =
                    [(''system'', before @ ''Target Model: '' @ model_text @ ''.'' @ between
                                   @ ''Tone: '' @ tone_text @ ''.'' @ after),
                     (''user'', user_text)]"
    by blast
qed


theorem defaults_only_in_generation_witness:
  "run (test_host scenario_answer) (execute test_policy test_uuid) payload_value empty_engine
     = run (test_host scenario_answer) (execute test_policy test_uuid)
         (JObj [(''prompt'', JStr ''write an email''), (''tone'', JStr ''professional'')])
         empty_engine
   \<and> run (test_host scenario_answer) (execute test_policy test_uuid) payload_value empty_engine
     = run (test_host scenario_answer) (execute test_policy test_uuid)
         (JObj [(''prompt'', JStr ''write an email''), (''targetModel'', JStr ''General LLM'')])
         empty_engine
   \<and> run (test_host scenario_answer) stop_before_generation
         (JObj [(''prompt'', JStr ''write an email''), (''tone'', JStr ''creative'')]) empty_engine
     = run (test_host scenario_answer) stop_before_generation
         (JObj [(''prompt'', JStr ''write an email''), (''targetModel'', JStr ''GPT-4'')])
         empty_engine
   \<and> generate_enhancement (test_host scenario_answer) (JStr ''write an email'')
         (JStr ''professional'') (JStr ''General LLM'') analysis_value strategy_value 2
       = (Inr (JObj [(''original'', JStr ''write an email''), (''enhanced_prompt'', JStr ''...''),
                     (''technique_used'', JStr ''Role-Prompting''),
                     (''changelog'', JStr ''added role and recipient context'')]), 3)
   \<and> run (test_host scenario_answer) (execute test_policy test_uuid) payload_value
         submitted_engine
     = execute test_policy test_uuid ''generate-enhancement''
         (generate_enhancement (test_host scenario_answer) (JStr ''write an email'')
            (JStr ''professional'') (JStr ''General LLM'') analysis_value strategy_value)
         (snd (execute test_policy test_uuid ''select-strategy''
                 (select_strategy (test_host scenario_answer) analysis_value)
                 (snd (execute test_policy test_uuid ''analyze-prompt''
                         (analyze_prompt (test_host scenario_answer) (JStr ''write an email''))
                         submitted_engine))))
   \<and> (\<exists>req before between after user_text.
         enhancement_request (JStr ''write an email'') (JStr ''professional'')
           (JStr ''General LLM'') analysis_value strategy_value = Inr req
         \<and> messages req =
             [(''system'', before @ ''Target Model: General LLM.'' @ between
                            @ ''Tone: professional.'' @ after),
              (''user'', user_text)])
   \<and> enhancement_request (JStr ''write an email'') (JStr ''professional'')
         (JStr ''General LLM'') analysis_value strategy_value
       = Inr \<lparr>messages =
                [(''system'',
                  ''You are an expert Prompt Engineer. Rewrite the original prompt using the Role-Prompting technique.''
                  @ newline @ indent @ ''Role: assistant.''
                  @ newline @ indent @ ''Target Model: General LLM.''
                  @ newline @ indent @ ''Tone: professional.''
                  @ newline @ indent @ ''Address these weaknesses: no recipient.''
                  @ newline @ indent @ ''Output valid JSON only.''),
                 (''user'', ''Original Prompt: '' @ dquote @ ''write an email'' @ dquote)],
              response_format = enhancement_schema\<rparr>"
proof -
  let ?h = "test_host scenario_answer"
  let ?p = "JStr ''write an email''"
  have w1: "run ?h (execute test_policy test_uuid) payload_value empty_engine
     = run ?h (execute test_policy test_uuid)
         (JObj [(''prompt'', JStr ''write an email''), (''tone'', JStr ''professional'')])
         empty_engine"
    using defaults_only_in_generation
      [where p = payload_value
         and p' = "JObj [(''prompt'', JStr ''write an email''), (''tone'', JStr ''professional'')]"
         and h = ?h and step_do = "execute test_policy test_uuid"
         and s = empty_engine, THEN conjunct1]
    by (simp add: payload_value_def)
  have w2: "run ?h (execute test_policy test_uuid) payload_value empty_engine
     = run ?h (execute test_policy test_uuid)
         (JObj [(''prompt'', JStr ''write an email''), (''targetModel'', JStr ''General LLM'')])
         empty_engine"
    using defaults_only_in_generation
      [where p = payload_value
         and p' = "JObj [(''prompt'', JStr ''write an email''), (''targetModel'', JStr ''General LLM'')]"
         and h = ?h and step_do = "execute test_policy test_uuid"
         and s = empty_engine, THEN conjunct2, THEN conjunct1]
    by (simp add: payload_value_def)
  have w3: "run ?h stop_before_generation
         (JObj [(''prompt'', JStr ''write an email''), (''tone'', JStr ''creative'')]) empty_engine
     = run ?h stop_before_generation
         (JObj [(''prompt'', JStr ''write an email''), (''targetModel'', JStr ''GPT-4'')])
         empty_engine"
    using defaults_only_in_generation
      [where p = "JObj [(''prompt'', JStr ''write an email''), (''tone'', JStr ''creative'')]"
         and p' = "JObj [(''prompt'', JStr ''write an email''), (''targetModel'', JStr ''GPT-4'')]"
         and h = ?h and step_do = stop_before_generation
         and s = empty_engine, THEN conjunct2, THEN conjunct2, THEN conjunct1]
    by (simp add: stop_before_generation_def)
  have w4: "generate_enhancement ?h ?p (JStr ''professional'') (JStr ''General LLM'')
              analysis_value strategy_value 2
       = (Inr (JObj [(''original'', JStr ''write an email''), (''enhanced_prompt'', JStr ''...''),
                     (''technique_used'', JStr ''Role-Prompting''),
                     (''changelog'', JStr ''added role and recipient context'')]), 3)"
    using scenario_step3[of 2] by (simp add: scenario_result_def numeral_3_eq_3)
  let ?x1 = "execute test_policy test_uuid ''analyze-prompt'' (analyze_prompt ?h ?p) submitted_engine"
  let ?x2 = "execute test_policy test_uuid ''select-strategy'' (select_strategy ?h analysis_value)
               (snd ?x1)"
  have e1: "?x1 = (Inr analysis_value, snd ?x1)"
    by (simp add: execute_first_try scenario_step1 submitted_engine_simps)
  have e2: "?x2 = (Inr strategy_value, snd ?x2)"
    by (simp add: execute_first_try scenario_step1 scenario_step2 submitted_engine_simps
          log_attempt_def)
  have reads: "get_prop payload_value ''prompt'' = Inr ?p"
    "get_prop payload_value ''tone'' = Inr JUndefined"
    "get_prop payload_value ''targetModel'' = Inr JUndefined"
    by (simp_all add: payload_value_def)
  have chain: "run ?h (execute test_policy test_uuid) payload_value submitted_engine =
          (case ?x1 of
             (Inl f, s1) \<Rightarrow> (Inl f, s1)
           | (Inr analysis, s1) \<Rightarrow>
               (case execute test_policy test_uuid ''select-strategy''
                       (select_strategy ?h analysis) s1 of
                  (Inl f, s2) \<Rightarrow> (Inl f, s2)
                | (Inr strategy, s2) \<Rightarrow>
                    execute test_policy test_uuid ''generate-enhancement''
                      (generate_enhancement ?h ?p (JStr ''professional'') (JStr ''General LLM'')
                         analysis strategy) s2))"
    using defaults_only_in_generation
      [where p = payload_value and prompt = ?p and tone = JUndefined and targetModel = JUndefined
         and h = ?h and step_do = "execute test_policy test_uuid" and s = submitted_engine,
       THEN conjunct2, THEN conjunct2, THEN conjunct2, THEN conjunct2, THEN conjunct1] reads
    by simp
  have w5: "run ?h (execute test_policy test_uuid) payload_value submitted_engine
     = execute test_policy test_uuid ''generate-enhancement''
         (generate_enhancement ?h ?p (JStr ''professional'') (JStr ''General LLM'')
            analysis_value strategy_value) (snd ?x2)"
    unfolding chain by (subst e1, simp, subst e2, simp)
  have w7: "enhancement_request ?p (JStr ''professional'') (JStr ''General LLM'')
              analysis_value strategy_value
       = Inr \<lparr>messages =
                [(''system'',
                  ''You are an expert Prompt Engineer. Rewrite the original prompt using the Role-Prompting technique.''
                  @ newline @ indent @ ''Role: assistant.''
                  @ newline @ indent @ ''Target Model: General LLM.''
                  @ newline @ indent @ ''Tone: professional.''
                  @ newline @ indent @ ''Address these weaknesses: no recipient.''
                  @ newline @ indent @ ''Output valid JSON only.''),
                 (''user'', ''Original Prompt: '' @ dquote @ ''write an email'' @ dquote)],
              response_format = enhancement_schema\<rparr>"
    by (simp add: enhancement_request_def analysis_value_def strategy_value_def)
  let ?req = "\<lparr>messages =
                [(''system'',
                  ''You are an expert Prompt Engineer. Rewrite the original prompt using the Role-Prompting technique.''
                  @ newline @ indent @ ''Role: assistant.''
                  @ newline @ indent @ ''Target Model: General LLM.''
                  @ newline @ indent @ ''Tone: professional.''
                  @ newline @ indent @ ''Address these weaknesses: no recipient.''
                  @ newline @ indent @ ''Output valid JSON only.''),
                 (''user'', ''Original Prompt: '' @ dquote @ ''write an email'' @ dquote)],
              response_format = enhancement_schema\<rparr>"
  from defaults_only_in_generation
      [where prompt = ?p and tone = "JStr ''professional''" and targetModel = "JStr ''General LLM''"
         and analysis = analysis_value and strategy = strategy_value and req = ?req
         and h = ?h and w = 0,
       THEN conjunct2, THEN conjunct2, THEN conjunct2, THEN conjunct2, THEN conjunct2,
       THEN mp, OF w7, THEN conjunct2]
  obtain tone_text model_text before between after user_text where
    pr: "to_string (JStr ''professional'') = Inr tone_text"
        "to_string (JStr ''General LLM'') = Inr model_text"
        "messages ?req =
           [(''system'', before @ ''Target Model: '' @ model_text @ ''.'' @ between
                          @ ''Tone: '' @ tone_text @ ''.'' @ after),
            (''user'', user_text)]"
    by blast
  from pr(1,2) have texts: "tone_text = ''professional''" "model_text = ''General LLM''"
    by simp_all
  have "messages ?req =
             [(''system'', before @ ''Target Model: General LLM.'' @ between
                            @ ''Tone: professional.'' @ after),
              (''user'', user_text)]"
    unfolding pr(3) texts by simp
  with w7 have w6: "\<exists>req before between after user_text.
         enhancement_request ?p (JStr ''professional'') (JStr ''General LLM'')
           analysis_value strategy_value = Inr req
         \<and> messages req =
             [(''system'', before @ ''Target Model: General LLM.'' @ between
                            @ ''Tone: professional.'' @ after),
              (''user'', user_text)]"
    by blast
  from w1 w2 w3 w4 w5 w6 w7 show ?thesis by blast
qed

end
